theory Spec2Isabelle
  imports Complex_Main "HOL-Library.Word" "HOL-Library.Log_Nat"
begin

unbundle bit_operations_syntax

section \<open>The gate opener worker (src/worker.ts)\<close>

text \<open>
  The worker is a request handler: \<open>fetch\<close> routes an inbound request to one of six
  handlers, which read and write the table \<open>public_keys\<close> of a D1 database and, for
  \<open>/gate\<close>, send a signed command to the gate's endpoint.

  Conventions of the embedding.
  \<^item> A JavaScript string is a \<open>string\<close>: each \<open>char\<close> stands for one UTF-16 code unit
    below 256 (the code points U+0000 to U+00FF).
  \<^item> An object literal that is serialised, or handed to the platform as a parameter
    dictionary, is a \<open>json\<close> value; an interface of the source is a record.
  \<^item> What the platform supplies (Web Crypto, the clock, the random number generator,
    \<open>toISOString\<close>, the outbound \<open>fetch\<close>) is a field of the record
    \<open>platform\<close>, so a theorem holds for every behaviour of the platform, or for every
    one that has the property the theorem names.
  \<^item> A Number is an IEEE 754 double, as the real it stands for; a product of Numbers
    is the exact product rounded to the nearest double.
  \<^item> An exception that leaves a handler is a value \<open>Inl e\<close>; a response is \<open>Inr r\<close>.
  \<^item> The mutable state is the record \<open>world\<close>: the content of the table, the list of
    the outbound requests made so far, and the number of random draws made so far.
  \<^item> A handler reads the body of a request at the type its annotation gives it; a body
    of another shape is outside the model, and so is a database that fails or has no
    table.

  The file src/worker.ts holds the worker followed, after a separator, by another
  revision of it (which decodes the key and the signature with \<open>atob\<close> and names the
  \<open>expiry\<close> field \<open>timestamp\<close>). The embedding is of the first, the one the
  specification describes.
\<close>

subsection \<open>Interfaces of the source\<close>

datatype DoorAction = OPEN | STOP | CLOSE

text \<open>The members of the string enum \<open>DoorAction\<close>, as the values they have at run time.\<close>

fun DoorAction_string :: "DoorAction \<Rightarrow> string" where
  "DoorAction_string OPEN = ''OPEN''"
| "DoorAction_string STOP = ''STOP''"
| "DoorAction_string CLOSE = ''CLOSE''"

text \<open>
  \<open>DoorRequestPayload\<close> is what \<open>request.json()\<close> returns in \<open>GateHandler\<close>. The
  annotation \<open>action: DoorAction\<close> is erased at run time and nothing validates the parsed
  body, so the field holds the string the body carried, whatever it is.
\<close>

record DoorRequestPayload =
  signature :: string
  action :: string
  publicKey :: string

record KeyStore =
  key :: string
  trusted :: bool

text \<open>
  \<open>Env\<close> without its binding \<open>PublicKeys\<close>, whose content is part of the \<open>world\<close>.
\<close>

record Env =
  ENVIRONMENT :: string
  GATE_HMAC_KEY :: string
  GATE_URL :: string

record ValueToGate =
  action :: string
  expiry :: string
  nonce :: int

record PayloadToGate =
  "value" :: ValueToGate
  signature :: string

text \<open>A row of \<open>publicKeysTable\<close> (schema.ts): \<open>id\<close>, \<open>key\<close>, \<open>trusted\<close>.\<close>

record public_keys =
  id_col :: int
  key :: string
  trusted :: int

subsection \<open>JSON values and \<open>JSON.stringify\<close>\<close>

datatype json =
  JString string
| JNumber int
| JBoolean bool
| JArray "json list"
| JObject "(string \<times> json) list"

text \<open>\<open>Number::toString\<close> on the integers the worker serialises (below \<open>10^21\<close>).\<close>

fun digits :: "nat \<Rightarrow> string" where
  "digits n =
     (if n < 10 then [''0123456789'' ! n]
      else digits (n div 10) @ [''0123456789'' ! (n mod 10)])"

declare digits.simps [simp del]

definition Number_toString :: "int \<Rightarrow> string" where
  "Number_toString n = (if n < 0 then ''-'' @ digits (nat (- n)) else digits (nat n))"

definition hex_digit :: "nat \<Rightarrow> char" where
  "hex_digit n = ''0123456789abcdef'' ! (n mod 16)"

text \<open>
  \<open>QuoteJSONString\<close>: the two-character escapes of the standard's table, \<open>\<bsol>u00xx\<close> for
  the other code units below 0x20, every other code unit as it is.
\<close>

definition JSON_escape_char :: "char \<Rightarrow> string" where
  "JSON_escape_char c =
     (if c = CHR 0x08 then [CHR 0x5C, CHR ''b'']
      else if c = CHR 0x09 then [CHR 0x5C, CHR ''t'']
      else if c = CHR 0x0A then [CHR 0x5C, CHR ''n'']
      else if c = CHR 0x0C then [CHR 0x5C, CHR ''f'']
      else if c = CHR 0x0D then [CHR 0x5C, CHR ''r'']
      else if c = CHR 0x22 then [CHR 0x5C, CHR 0x22]
      else if c = CHR 0x5C then [CHR 0x5C, CHR 0x5C]
      else if (of_char c :: nat) < 0x20
        then [CHR 0x5C, CHR ''u'', CHR ''0'', CHR ''0'',
              hex_digit (of_char c div 16), hex_digit (of_char c)]
      else [c])"

definition JSON_escape :: "string \<Rightarrow> string" where
  "JSON_escape s = concat (map JSON_escape_char s)"

definition QuoteJSONString :: "string \<Rightarrow> string" where
  "QuoteJSONString s = [CHR 0x22] @ JSON_escape s @ [CHR 0x22]"

fun JSON_stringify :: "json \<Rightarrow> string"
  and SerializeJSONArray :: "json list \<Rightarrow> string"
  and SerializeJSONObject :: "(string \<times> json) list \<Rightarrow> string" where
  "JSON_stringify (JString s) = QuoteJSONString s"
| "JSON_stringify (JNumber n) = Number_toString n"
| "JSON_stringify (JBoolean b) = (if b then ''true'' else ''false'')"
| "JSON_stringify (JArray xs) = ''['' @ SerializeJSONArray xs @ '']''"
| "JSON_stringify (JObject ms) = ''{'' @ SerializeJSONObject ms @ ''}''"
| "SerializeJSONArray [] = []"
| "SerializeJSONArray [x] = JSON_stringify x"
| "SerializeJSONArray (x # y # ys) = JSON_stringify x @ '','' @ SerializeJSONArray (y # ys)"
| "SerializeJSONObject [] = []"
| "SerializeJSONObject [(k, v)] = QuoteJSONString k @ '':'' @ JSON_stringify v"
| "SerializeJSONObject ((k, v) # m # ms) =
     QuoteJSONString k @ '':'' @ JSON_stringify v @ '','' @ SerializeJSONObject (m # ms)"

text \<open>The objects of the source's interfaces, with their properties in the order of the
  object literals that build them (a parsed \<open>KeyStore\<close> that is echoed: \<open>key\<close>, then
  \<open>trusted\<close>).\<close>

definition KeyStore_json :: "KeyStore \<Rightarrow> json" where
  "KeyStore_json k = JObject [(''key'', JString (KeyStore.key k)), (''trusted'', JBoolean (KeyStore.trusted k))]"

definition ValueToGate_json :: "ValueToGate \<Rightarrow> json" where
  "ValueToGate_json v =
     JObject [(''action'', JString (ValueToGate.action v)),
              (''expiry'', JString (expiry v)),
              (''nonce'', JNumber (nonce v))]"

definition PayloadToGate_json :: "PayloadToGate \<Rightarrow> json" where
  "PayloadToGate_json p =
     JObject [(''value'', ValueToGate_json (value p)),
              (''signature'', JString (PayloadToGate.signature p))]"

subsection \<open>\<open>TextEncoder.encode\<close>: UTF-8\<close>

text \<open>A code point below 0x80 is one byte, one from 0x80 to 0xFF is two.\<close>

definition utf8_char :: "char \<Rightarrow> 8 word list" where
  "utf8_char c =
     (if (of_char c :: nat) < 0x80 then [of_char c]
      else [0xC0 OR drop_bit 6 (of_char c), 0x80 OR (of_char c AND 0x3F)])"

definition TextEncoder_encode :: "string \<Rightarrow> 8 word list" where
  "TextEncoder_encode s = concat (map utf8_char s)"

definition String_fromCharCode :: "8 word list \<Rightarrow> string" where
  "String_fromCharCode bs = map (\<lambda>b. char_of (unat b)) bs"

subsection \<open>\<open>btoa\<close>: base64\<close>

definition base64_digit :: "8 word \<Rightarrow> char" where
  "base64_digit n =
     ''ABCDEFGHIJKLMNOPQRSTUVWXYZabcdefghijklmnopqrstuvwxyz0123456789+/'' ! (unat n mod 64)"

fun base64 :: "8 word list \<Rightarrow> string" where
  "base64 [] = []"
| "base64 [a] =
     [base64_digit (drop_bit 2 a), base64_digit (push_bit 4 (a AND 3)), CHR ''='', CHR ''='']"
| "base64 [a, b] =
     [base64_digit (drop_bit 2 a), base64_digit (push_bit 4 (a AND 3) OR drop_bit 4 b),
      base64_digit (push_bit 2 (b AND 15)), CHR ''='']"
| "base64 (a # b # c # bs) =
     [base64_digit (drop_bit 2 a), base64_digit (push_bit 4 (a AND 3) OR drop_bit 4 b),
      base64_digit (push_bit 2 (b AND 15) OR drop_bit 6 c), base64_digit (c AND 63)] @ base64 bs"

text \<open>Every code unit of a \<open>string\<close> is below 256, so \<open>btoa\<close> does not throw.\<close>

definition btoa :: "string \<Rightarrow> string" where
  "btoa s = base64 (map of_char s)"

subsection \<open>\<open>Date\<close>: time values, \<open>getMinutes\<close>, \<open>setMinutes\<close>\<close>

text \<open>
  A time value is a number of milliseconds since the epoch; \<open>None\<close> is the invalid date
  (NaN). The abstract operations are those of the ECMAScript standard. The local time
  zone is a constant offset \<open>tza\<close> (0 on the Workers runtime, whose zone is UTC).
\<close>

definition msPerSecond :: int where "msPerSecond = 1000"
definition msPerMinute :: int where "msPerMinute = 60000"
definition msPerHour :: int where "msPerHour = 3600000"
definition msPerDay :: int where "msPerDay = 86400000"

definition Day :: "int \<Rightarrow> int" where "Day t = t div msPerDay"
definition HourFromTime :: "int \<Rightarrow> int" where "HourFromTime t = (t div msPerHour) mod 24"
definition MinFromTime :: "int \<Rightarrow> int" where "MinFromTime t = (t div msPerMinute) mod 60"
definition SecFromTime :: "int \<Rightarrow> int" where "SecFromTime t = (t div msPerSecond) mod 60"
definition msFromTime :: "int \<Rightarrow> int" where "msFromTime t = t mod msPerSecond"

definition MakeTime :: "int \<Rightarrow> int \<Rightarrow> int \<Rightarrow> int \<Rightarrow> int" where
  "MakeTime hour m sec ms = hour * msPerHour + m * msPerMinute + sec * msPerSecond + ms"

definition MakeDate :: "int \<Rightarrow> int \<Rightarrow> int" where
  "MakeDate day time = day * msPerDay + time"

definition TimeClip :: "int \<Rightarrow> int option" where
  "TimeClip t = (if \<bar>t\<bar> > 8640000000000000 then None else Some t)"

definition LocalTime :: "int \<Rightarrow> int \<Rightarrow> int" where "LocalTime tza t = t + tza"
definition UTC :: "int \<Rightarrow> int \<Rightarrow> int" where "UTC tza t = t - tza"

definition getMinutes :: "int \<Rightarrow> int option \<Rightarrow> int option" where
  "getMinutes tza d = (case d of None \<Rightarrow> None | Some t \<Rightarrow> Some (MinFromTime (LocalTime tza t)))"

definition setMinutes :: "int \<Rightarrow> int option \<Rightarrow> int option \<Rightarrow> int option" where
  "setMinutes tza d m =
     (case d of None \<Rightarrow> None
      | Some t0 \<Rightarrow>
          (case m of None \<Rightarrow> None
           | Some mn \<Rightarrow>
               (let t = LocalTime tza t0;
                    date = MakeDate (Day t) (MakeTime (HourFromTime t) mn (SecFromTime t) (msFromTime t))
                in TimeClip (UTC tza date))))"

subsection \<open>The platform and the state\<close>

datatype exception = SyntaxError | DataError | RangeError | NetworkError

record Response =
  status :: nat
  headers :: "(string \<times> string) list"
  body :: string

text \<open>The inbound request: its method, the path of its URL, what \<open>request.text()\<close>
  returns, and what \<open>request.json()\<close> returns at each of the two types the handlers read
  it at (\<open>None\<close> when the body is not JSON and the call throws).\<close>

record Request =
  "method" :: string
  pathname :: string
  text_body :: string
  json_KeyStore :: "KeyStore option"
  json_DoorRequestPayload :: "DoorRequestPayload option"

text \<open>The second argument of the outbound \<open>fetch\<close>.\<close>

record RequestInit =
  "method" :: string
  headers :: "(string \<times> string) list"
  body :: string

text \<open>
  The platform, for a type \<open>'k\<close> of \<open>CryptoKey\<close> objects. \<open>importKey\<close> takes the
  format, the key data, the algorithm, \<open>extractable\<close> and the usages, and is \<open>None\<close>
  when the promise is rejected; \<open>verify\<close> and \<open>sign\<close> take the algorithm, the key,
  and the signature and the data, or the data. \<open>Date_now\<close> is the time \<open>new Date()\<close> reads
  and \<open>Math_random n\<close> the number that call \<open>n\<close> of \<open>Math.random()\<close> draws (the calls
  are counted in the state). \<open>gate_fetch\<close> is the outbound \<open>fetch\<close>.
\<close>

record 'k platform =
  importKey :: "string \<Rightarrow> 8 word list \<Rightarrow> json \<Rightarrow> bool \<Rightarrow> string list \<Rightarrow> 'k option"
  verify :: "json \<Rightarrow> 'k \<Rightarrow> 8 word list \<Rightarrow> 8 word list \<Rightarrow> bool"
  sign :: "json \<Rightarrow> 'k \<Rightarrow> 8 word list \<Rightarrow> 8 word list"
  Date_now :: int
  tza :: int
  toISOString :: "int \<Rightarrow> string"
  Math_random :: "nat \<Rightarrow> real"
  gate_fetch :: "string \<Rightarrow> RequestInit \<Rightarrow> exception + Response"

text \<open>An outbound request, with the \<open>payload\<close> object its body serialises.\<close>

record GateFetch =
  payload :: PayloadToGate
  url :: string
  init :: RequestInit

text \<open>The state: the rows of \<open>public_keys\<close> in the order of their ids, the largest id
  the table has used (AUTOINCREMENT), the outbound requests made so far, and the number
  of calls of \<open>Math.random()\<close> made so far.\<close>

record world =
  PublicKeys :: "public_keys list"
  sqlite_sequence :: int
  outbound :: "GateFetch list"
  draws :: nat

subsection \<open>Helpers of the source\<close>

definition toInt :: "bool \<Rightarrow> int" where
  "toInt v = (if v then 1 else 0)"

definition NewJsonResponse :: "nat \<Rightarrow> json \<Rightarrow> Response" where
  "NewJsonResponse st b =
     \<lparr>status = st, headers = [(''Content-Type'', ''application/json'')], body = JSON_stringify b\<rparr>"

definition GetMethodNotAllowedResponse :: Response where
  "GetMethodNotAllowedResponse =
     NewJsonResponse 405 (JObject [(''status'', JString ''failed''), (''message'', JString ''Method Not Allowed'')])"

definition GetUnauthorizedResponse :: Response where
  "GetUnauthorizedResponse =
     NewJsonResponse 401 (JObject [(''status'', JString ''failed''), (''message'', JString ''Unauthorized'')])"

definition GetNotProductionResponse :: Response where
  "GetNotProductionResponse =
     NewJsonResponse 403 (JObject [(''status'', JString ''failed''), (''message'', JString ''Not allowed in production'')])"

text \<open>\<open>response.ok\<close>: the status is in the range 200 to 299.\<close>

definition ok :: "Response \<Rightarrow> bool" where
  "ok r = (200 \<le> Response.status r \<and> Response.status r \<le> 299)"

subsection \<open>The queries on \<open>public_keys\<close>\<close>

definition findFirst :: "(public_keys \<Rightarrow> bool) \<Rightarrow> world \<Rightarrow> public_keys option" where
  "findFirst wh w = find wh (PublicKeys w)"

definition insert_values :: "string \<Rightarrow> int \<Rightarrow> world \<Rightarrow> world" where
  "insert_values k t w =
     (let i = fold max (map id_col (PublicKeys w)) (sqlite_sequence w) + 1
      in w\<lparr>PublicKeys := PublicKeys w @ [\<lparr>id_col = i, key = k, trusted = t\<rparr>],
            sqlite_sequence := i\<rparr>)"

definition delete_where :: "(public_keys \<Rightarrow> bool) \<Rightarrow> world \<Rightarrow> world" where
  "delete_where wh w = w\<lparr>PublicKeys := filter (\<lambda>r. \<not> wh r) (PublicKeys w)\<rparr>"

definition update_set_where :: "int \<Rightarrow> string \<Rightarrow> (public_keys \<Rightarrow> bool) \<Rightarrow> world \<Rightarrow> world" where
  "update_set_where t k wh w =
     w\<lparr>PublicKeys := map (\<lambda>r. if wh r then r\<lparr>trusted := t, key := k\<rparr> else r) (PublicKeys w)\<rparr>"

subsection \<open>The handlers of the key registry\<close>

definition PublicKeyPostHandler :: "Request \<Rightarrow> Env \<Rightarrow> world \<Rightarrow> (exception + Response) \<times> world" where
  "PublicKeyPostHandler request env w =
     (let recivedKey = text_body request in
      case findFirst (\<lambda>r. public_keys.key r = recivedKey) w of
        Some storedKey \<Rightarrow>
          (Inr (NewJsonResponse 409
             (JObject [(''status'', JString ''failed''), (''message'', JString ''Key already exists'')])), w)
      | None \<Rightarrow>
          (Inr (NewJsonResponse 200
             (JObject [(''status'', JString ''success''), (''key'', JString recivedKey),
                       (''message'', JString ''Key added'')])),
           insert_values recivedKey (toInt False) w))"

definition PublicKeyGetHandler :: "Request \<Rightarrow> Env \<Rightarrow> world \<Rightarrow> (exception + Response) \<times> world" where
  "PublicKeyGetHandler request env w =
     (let keys = PublicKeys w in
      if length keys = 0
      then (Inr (NewJsonResponse 404
             (JObject [(''status'', JString ''failed''), (''message'', JString ''No keys found'')])), w)
      else (Inr (NewJsonResponse 200
             (JObject [(''status'', JString ''success''),
                       (''keys'', JArray (map (\<lambda>k. KeyStore_json
                          \<lparr>KeyStore.key = public_keys.key k, trusted = (public_keys.trusted k \<noteq> 0)\<rparr>) keys))])), w))"

definition PublicKeyDeleteHandler :: "Request \<Rightarrow> Env \<Rightarrow> world \<Rightarrow> (exception + Response) \<times> world" where
  "PublicKeyDeleteHandler request env w =
     (let recivedKey = text_body request in
      case findFirst (\<lambda>r. public_keys.key r = recivedKey) w of
        None \<Rightarrow>
          (Inr (NewJsonResponse 404
             (JObject [(''status'', JString ''failed''), (''message'', JString ''Key not found'')])), w)
      | Some storedKey \<Rightarrow>
          (Inr (NewJsonResponse 200
             (JObject [(''status'', JString ''success''), (''key'', JString recivedKey),
                       (''message'', JString ''Key deleted'')])),
           delete_where (\<lambda>r. public_keys.key r = recivedKey) w))"

definition PublicKeyUpdateHandler :: "Request \<Rightarrow> Env \<Rightarrow> world \<Rightarrow> (exception + Response) \<times> world" where
  "PublicKeyUpdateHandler request env w =
     (case json_KeyStore request of
        None \<Rightarrow> (Inl SyntaxError, w)
      | Some updateTo \<Rightarrow>
          (Inr (NewJsonResponse 200
             (JObject [(''newKey'', KeyStore_json updateTo), (''status'', JString ''success''),
                       (''message'', JString ''Key updated'')])),
           update_set_where (toInt (KeyStore.trusted updateTo)) (KeyStore.key updateTo)
             (\<lambda>r. public_keys.key r = KeyStore.key updateTo) w))"

text \<open>\<open>CREATE TABLE IF NOT EXISTS\<close> on the table, which exists: nothing changes.\<close>

definition TableHandler :: "Request \<Rightarrow> Env \<Rightarrow> world \<Rightarrow> (exception + Response) \<times> world" where
  "TableHandler request env w =
     (Inr (NewJsonResponse 200
        (JObject [(''status'', JString ''success''),
                  (''message'', JString ''Table created or already exists'')])), w)"

subsection \<open>\<open>SendToGate\<close> and \<open>GateHandler\<close>\<close>

text \<open>
  A Number is an IEEE 754 double, modelled by the real it stands for. The product of
  two doubles is the exact product rounded to the nearest double, ties to the even
  one. The doubles from \<open>2 ^ e\<close> up to \<open>2 ^ (e + 1)\<close> are the multiples of \<open>2 ^ (e - 52)\<close>,
  and those below \<open>2 ^ -1022\<close> the multiples of \<open>2 ^ -1074\<close>; \<open>grid_exponent x\<close> is the
  exponent of the grid around \<open>x\<close>, read off the number of bits of \<open>x\<close> in units of
  \<open>2 ^ -1074\<close>. (A product beyond the largest double would be Infinity; the worker's
  products are below \<open>1000000000\<close>.)
\<close>

definition roundTiesToEven :: "real \<Rightarrow> int" where
  "roundTiesToEven y =
     (let f = \<lfloor>y\<rfloor> in
      if y - of_int f < 1 / 2 then f
      else if 1 / 2 < y - of_int f then f + 1
      else if even f then f else f + 1)"

definition grid_exponent :: "real \<Rightarrow> int" where
  "grid_exponent x = max (bitlen \<lfloor>\<bar>x\<bar> * 2 ^ 1074\<rfloor> - 53) 0 - 1074"

definition round_double :: "real \<Rightarrow> real" where
  "round_double x =
     of_int (roundTiesToEven (x / 2 powi grid_exponent x)) * 2 powi grid_exponent x"

definition Number_times :: "real \<Rightarrow> real \<Rightarrow> real" where
  "Number_times a b = round_double (a * b)"

definition Math_floor :: "real \<Rightarrow> int" where
  "Math_floor x = \<lfloor>x\<rfloor>"

text \<open>
  \<open>SendToGate\<close> imports the HMAC key, builds \<open>value\<close> (an invalid date makes
  \<open>toISOString\<close> throw a RangeError, before \<open>Math.random()\<close> is called), signs its
  serialisation, sends the payload and maps the answer. The request is recorded in
  \<open>outbound\<close> whether \<open>fetch\<close> answers or throws.
\<close>

definition SendToGate :: "'k platform \<Rightarrow> string \<Rightarrow> Env \<Rightarrow> world \<Rightarrow> (exception + Response) \<times> world" where
  "SendToGate p act env w =
     (case importKey p ''raw'' (TextEncoder_encode (GATE_HMAC_KEY env))
             (JObject [(''name'', JString ''HMAC''), (''hash'', JString ''SHA-256'')]) False [''sign''] of
        None \<Rightarrow> (Inl DataError, w)
      | Some hmacKey \<Rightarrow>
          (let expiry0 = TimeClip (Date_now p);
               expiry1 = setMinutes (tza p) expiry0 (map_option (\<lambda>m. m + 1) (getMinutes (tza p) expiry0))
           in case expiry1 of
                None \<Rightarrow> (Inl RangeError, w)
              | Some t \<Rightarrow>
                  (let v = \<lparr>ValueToGate.action = act, expiry = toISOString p t,
                            nonce = Math_floor (Number_times (Math_random p (draws w)) 1000000000)\<rparr>;
                       signatureBinarys = sign p (JObject [(''name'', JString ''HMAC'')]) hmacKey
                           (TextEncoder_encode (JSON_stringify (ValueToGate_json v)));
                       pl = \<lparr>value = v, signature = btoa (String_fromCharCode signatureBinarys)\<rparr>;
                       i = \<lparr>RequestInit.method = ''POST'',
                            headers = [(''Content-Type'', ''application/json'')],
                            body = JSON_stringify (PayloadToGate_json pl)\<rparr>;
                       w' = w\<lparr>outbound := outbound w @ [\<lparr>payload = pl, url = GATE_URL env, init = i\<rparr>],
                              draws := draws w + 1\<rparr>
                   in case gate_fetch p (GATE_URL env) i of
                        Inl e \<Rightarrow> (Inl e, w')
                      | Inr response \<Rightarrow>
                          (Inr (if ok response
                                then NewJsonResponse 200
                                       (JObject [(''status'', JString ''success''),
                                                 (''message'', JString (''Gate action '' @ act @ '' sent successfully''))])
                                else response), w'))))"

definition GateHandler :: "'k platform \<Rightarrow> Request \<Rightarrow> Env \<Rightarrow> world \<Rightarrow> (exception + Response) \<times> world" where
  "GateHandler p request env w =
     (case json_DoorRequestPayload request of
        None \<Rightarrow> (Inl SyntaxError, w)
      | Some requestPayload \<Rightarrow>
          (case findFirst (\<lambda>r. public_keys.trusted r = toInt True
                               \<and> public_keys.key r = publicKey requestPayload) w of
             None \<Rightarrow> (Inr GetUnauthorizedResponse, w)
           | Some k \<Rightarrow>
               (let recivedKeyBinary = TextEncoder_encode (publicKey requestPayload);
                    signatureBinary = TextEncoder_encode (DoorRequestPayload.signature requestPayload)
                in case importKey p ''spki'' recivedKeyBinary
                          (JObject [(''name'', JString ''RSASSA-PKCS1-v1_5''), (''hash'', JString ''SHA-256'')])
                          False [''verify''] of
                     None \<Rightarrow> (Inl DataError, w)
                   | Some recivedKey \<Rightarrow>
                       (let VerifyResult = verify p
                              (JObject [(''name'', JString ''RSASSA-PKCS1-v1_5''), (''saltLength'', JNumber 32)])
                              recivedKey signatureBinary
                              (TextEncoder_encode (DoorRequestPayload.action requestPayload))
                        in if \<not> VerifyResult then (Inr GetUnauthorizedResponse, w)
                           else SendToGate p (DoorRequestPayload.action requestPayload) env w))))"

subsection \<open>The router\<close>

definition fetch :: "'k platform \<Rightarrow> Request \<Rightarrow> Env \<Rightarrow> world \<Rightarrow> (exception + Response) \<times> world" where
  "fetch p request env w =
     (if pathname request = ''/publicKey'' then
        (if Request.method request = ''POST'' then PublicKeyPostHandler request env w
         else if Request.method request = ''GET'' then
           (if ENVIRONMENT env \<noteq> ''DEVELOPMENT'' then (Inr GetNotProductionResponse, w)
            else PublicKeyGetHandler request env w)
         else if Request.method request = ''DELETE'' then
           (if ENVIRONMENT env \<noteq> ''DEVELOPMENT'' then (Inr GetNotProductionResponse, w)
            else PublicKeyDeleteHandler request env w)
         else if Request.method request = ''PATCH'' then
           (if ENVIRONMENT env \<noteq> ''DEVELOPMENT'' then (Inr GetNotProductionResponse, w)
            else PublicKeyUpdateHandler request env w)
         else (Inr GetMethodNotAllowedResponse, w))
      else if pathname request = ''/table'' then
        (if ENVIRONMENT env \<noteq> ''DEVELOPMENT'' then (Inr GetNotProductionResponse, w)
         else if Request.method request \<noteq> ''PUT'' then (Inr GetMethodNotAllowedResponse, w)
         else TableHandler request env w)
      else if pathname request = ''/gate'' then
        (if Request.method request \<noteq> ''PATCH'' then (Inr GetMethodNotAllowedResponse, w)
         else GateHandler p request env w)
      else (Inr (NewJsonResponse 404
              (JObject [(''status'', JString ''failed''), (''message'', JString ''Not Found'')])), w))"

subsection \<open>Vocabulary of the claims\<close>

text \<open>The lookup \<open>GateHandler\<close> makes: the first row that is trusted and has the request's key.\<close>

definition trust_lookup :: "DoorRequestPayload \<Rightarrow> world \<Rightarrow> public_keys option" where
  "trust_lookup pl w =
     findFirst (\<lambda>r. public_keys.trusted r = toInt True \<and> public_keys.key r = publicKey pl) w"

text \<open>The key \<open>GateHandler\<close> imports from the request, if the import succeeds.\<close>

definition imported_key :: "'k platform \<Rightarrow> DoorRequestPayload \<Rightarrow> 'k option" where
  "imported_key p pl =
     importKey p ''spki'' (TextEncoder_encode (publicKey pl))
       (JObject [(''name'', JString ''RSASSA-PKCS1-v1_5''), (''hash'', JString ''SHA-256'')])
       False [''verify'']"

text \<open>The call of \<open>crypto.subtle.verify\<close> that \<open>GateHandler\<close> makes with the key \<open>k\<close>.\<close>

definition verify_call :: "'k platform \<Rightarrow> 'k \<Rightarrow> DoorRequestPayload \<Rightarrow> bool" where
  "verify_call p k pl =
     verify p (JObject [(''name'', JString ''RSASSA-PKCS1-v1_5''), (''saltLength'', JNumber 32)])
       k (TextEncoder_encode (DoorRequestPayload.signature pl))
       (TextEncoder_encode (DoorRequestPayload.action pl))"

text \<open>
  What the Web Crypto standard requires of an \<open>spki\<close> key for RSASSA-PKCS1-v1_5: the key
  data is a DER SubjectPublicKeyInfo whose algorithm is \<open>rsaEncryption\<close>, so it holds the
  encoding of that object identifier (1.2.840.113549.1.1.1); the import is rejected with
  a DataError otherwise. \<open>spki_requires_rsaEncryption p\<close> says that the platform \<open>p\<close>
  follows the standard in this.
\<close>

fun has_prefix :: "'a list \<Rightarrow> 'a list \<Rightarrow> bool" where
  "has_prefix [] ys = True"
| "has_prefix (x # xs) [] = False"
| "has_prefix (x # xs) (y # ys) = (x = y \<and> has_prefix xs ys)"

fun has_infix :: "'a list \<Rightarrow> 'a list \<Rightarrow> bool" where
  "has_infix xs [] = (xs = [])"
| "has_infix xs (y # ys) = (has_prefix xs (y # ys) \<or> has_infix xs ys)"

definition rsaEncryption :: "8 word list" where
  "rsaEncryption = [0x06, 0x09, 0x2A, 0x86, 0x48, 0x86, 0xF7, 0x0D, 0x01, 0x01, 0x01]"

definition spki_requires_rsaEncryption :: "'k platform \<Rightarrow> bool" where
  "spki_requires_rsaEncryption p \<longleftrightarrow>
     (\<forall>keyData extractable usages.
        importKey p ''spki'' keyData
          (JObject [(''name'', JString ''RSASSA-PKCS1-v1_5''), (''hash'', JString ''SHA-256'')])
          extractable usages \<noteq> None \<longrightarrow> has_infix rsaEncryption keyData)"

subsection \<open>A small platform to run the model on\<close>

text \<open>
  A stand-in for the platform, on which the model computes. A key is its own bytes;
  an \<open>spki\<close> key is accepted when its first byte is 0x30 (the tag every DER sequence
  starts with) and a raw key when it is not empty; a signature is valid when it is the
  key followed by the data; the gate at \<open>gate.example\<close> accepts, any other is offline.
  The first draw is the double nearest to 0.3, the later ones are 0.5.
\<close>

definition demo_platform :: "8 word list platform" where
  "demo_platform =
     \<lparr>importKey = (\<lambda>format keyData algorithm extractable usages.
         if format = ''spki''
         then (case keyData of [] \<Rightarrow> None | b # bs \<Rightarrow> if b = 0x30 then Some keyData else None)
         else if keyData = [] then None else Some keyData),
      verify = (\<lambda>algorithm k sg d. sg = k @ d),
      sign = (\<lambda>algorithm k d. [of_nat (length k), of_nat (length d)]),
      Date_now = 3599999,
      tza = 0,
      toISOString = Number_toString,
      Math_random = (\<lambda>n. if n = 0 then 5404319552844595 / 18014398509481984 else 1 / 2),
      gate_fetch = (\<lambda>u i.
         if u = ''https://gate.example/command''
         then Inr \<lparr>status = 200, headers = [], body = ''done''\<rparr>
         else Inr \<lparr>status = 503, headers = [], body = ''gate offline''\<rparr>)\<rparr>"

definition demo_env :: Env where
  "demo_env = \<lparr>ENVIRONMENT = ''PRODUCTION'', GATE_HMAC_KEY = ''secret'',
               GATE_URL = ''https://gate.example/command''\<rparr>"

definition offline_env :: Env where
  "offline_env = \<lparr>ENVIRONMENT = ''PRODUCTION'', GATE_HMAC_KEY = ''secret'',
                  GATE_URL = ''https://gate.invalid/command''\<rparr>"

text \<open>Three registered keys: \<open>0K\<close> trusted, \<open>0U\<close> not trusted, and \<open>abc\<close>, trusted, which
  is not an \<open>spki\<close> key.\<close>

definition demo_world :: world where
  "demo_world =
     \<lparr>PublicKeys = [\<lparr>id_col = 1, key = ''0K'', trusted = 1\<rparr>,
                    \<lparr>id_col = 2, key = ''0U'', trusted = 0\<rparr>,
                    \<lparr>id_col = 3, key = ''abc'', trusted = 1\<rparr>],
      sqlite_sequence = 3, outbound = [], draws = 0\<rparr>"

definition gate_request :: "DoorRequestPayload \<Rightarrow> Request" where
  "gate_request pl =
     \<lparr>Request.method = ''PATCH'', pathname = ''/gate'', text_body = [],
      json_KeyStore = None, json_DoorRequestPayload = Some pl\<rparr>"

definition registry_request :: "string \<Rightarrow> string \<Rightarrow> string \<Rightarrow> Request" where
  "registry_request m path txt =
     \<lparr>Request.method = m, pathname = path, text_body = txt,
      json_KeyStore = None, json_DoorRequestPayload = None\<rparr>"

definition update_request :: "KeyStore \<Rightarrow> Request" where
  "update_request ks =
     \<lparr>Request.method = ''PATCH'', pathname = ''/publicKey'', text_body = [],
      json_KeyStore = Some ks, json_DoorRequestPayload = None\<rparr>"

definition dev_env :: Env where
  "dev_env = \<lparr>ENVIRONMENT = ''DEVELOPMENT'', GATE_HMAC_KEY = ''secret'',
              GATE_URL = ''https://gate.example/command''\<rparr>"

text \<open>The small platform with the import of an \<open>spki\<close> key as the standard has it: the
  key data must hold the object identifier \<open>rsaEncryption\<close>.\<close>

definition der_platform :: "8 word list platform" where
  "der_platform =
     demo_platform\<lparr>importKey := (\<lambda>format keyData algorithm extractable usages.
         if format = ''spki''
         then (if has_infix rsaEncryption keyData then Some keyData else None)
         else if keyData = [] then None else Some keyData)\<rparr>"

text \<open>An RSA key of 1024 bits as a client sends it, the base64 text of its
  SubjectPublicKeyInfo, and the base64 text of its signature of \<open>OPEN\<close> (RSASSA-PKCS1-v1_5,
  SHA-256); a store in which the key is trusted.\<close>

definition rsa_key :: string where
  "rsa_key = ''MIGfMA0GCSqGSIb3DQEBAQUAA4GNADCBiQKBgQC6oRcJ9JHJB4bKdzJWNXjtAq0YtoB3UDDKoCN89l2S7d5Cw9vdjR3P0om+8W4+nNHY2fYbcrlnb4G4UCsJ8C8tfRNDYaCksLOBU2lGh4LzLjXHawLNldZswMGMp2m7TnxOV7OMmKgNKtJnDvKgY7AKiH1T9NEyJ7bX+n4wUOyPBwIDAQAB''"

definition rsa_signature :: string where
  "rsa_signature = ''ca20KZIGoA8iEa6Rhn2SQGeh5phmtc757wogMn20OEKFp2Se/GeReXPbwdzEVtDr/56itlsJFwWWa1uexq/0bwjmAifgpTiqBNqFiBW91q0VZtVLQiRb0hu99IM0IIUXCASaFyik7+nOwqiyDVGWoljmO3YQfsx9vF9ynkAwIzQ=''"

definition rsa_world :: world where
  "rsa_world =
     \<lparr>PublicKeys = [\<lparr>id_col = 1, key = rsa_key, trusted = 1\<rparr>],
      sqlite_sequence = 1, outbound = [], draws = 0\<rparr>"

section \<open>Properties of the platform functions\<close>

subsection \<open>One minute later\<close>

text \<open>
  A time value is its day, hour, minute, second and millisecond put together again;
  so replacing the minute by \<open>m\<close> moves it by \<open>m\<close> minus its minute, in minutes.
\<close>

lemma split_time:
  fixes u :: int
  shows "u div 86400000 * 86400000 +
     (u div 3600000 mod 24 * 3600000 + m * 60000 + u div 1000 mod 60 * 1000 + u mod 1000) =
     u + (m - u div 60000 mod 60) * 60000"
proof -
  define q1 where "q1 = u div 1000"
  define q2 where "q2 = q1 div 60"
  define q3 where "q3 = q2 div 60"
  define q4 where "q4 = q3 div 24"
  define r1 where "r1 = u mod 1000"
  define r2 where "r2 = q1 mod 60"
  define r3 where "r3 = q2 mod 60"
  define r4 where "r4 = q3 mod 24"
  have a: "u = 1000 * q1 + r1" by (simp add: q1_def r1_def)
  have b: "q1 = 60 * q2 + r2" by (simp add: q2_def r2_def)
  have c: "q2 = 60 * q3 + r3" by (simp add: q3_def r3_def)
  have d: "q3 = 24 * q4 + r4" by (simp add: q4_def r4_def)
  have e2: "u div 60000 = q2" unfolding q2_def q1_def by (simp add: div_mult2_eq)
  have e3: "u div 3600000 = q3" unfolding q3_def q2_def q1_def by (simp add: div_mult2_eq)
  have e4: "u div 86400000 = q4" unfolding q4_def q3_def q2_def q1_def by (simp add: div_mult2_eq)
  have "q4 * 86400000 + (r4 * 3600000 + m * 60000 + r2 * 1000 + r1) = u + (m - r3) * 60000"
    by (simp only: a b c d) (simp add: algebra_simps)
  then show ?thesis
    unfolding e2 e3 e4 unfolding q1_def[symmetric] r1_def r2_def r3_def r4_def .
qed

text \<open>\<open>d.setMinutes(d.getMinutes() + 1)\<close> on a valid date, also across the end of an hour
  or of a day: the time value plus 60000, clipped.\<close>

lemma setMinutes_plus_one:
  "setMinutes z (Some t) (map_option (\<lambda>m. m + 1) (getMinutes z (Some t))) = TimeClip (t + 60000)"
proof -
  have "MakeDate (Day (t + z))
      (MakeTime (HourFromTime (t + z)) (MinFromTime (t + z) + 1) (SecFromTime (t + z)) (msFromTime (t + z)))
      = t + z + 60000"
    unfolding MakeDate_def Day_def MakeTime_def HourFromTime_def MinFromTime_def SecFromTime_def
      msFromTime_def msPerDay_def msPerHour_def msPerMinute_def msPerSecond_def
    by (simp only: split_time) simp
  then show ?thesis
    by (simp add: setMinutes_def getMinutes_def LocalTime_def UTC_def Let_def)
qed

lemma TimeClip_Some: "TimeClip t = Some u \<Longrightarrow> u = t"
  by (simp add: TimeClip_def split: if_splits)

subsection \<open>Rounding to a double\<close>

lemma roundTiesToEven_ge: "of_int m \<le> y \<Longrightarrow> m \<le> roundTiesToEven y"
  by (auto simp: roundTiesToEven_def Let_def le_floor_iff) linarith+

lemma roundTiesToEven_le: "y \<le> of_int m \<Longrightarrow> roundTiesToEven y \<le> m"
  unfolding roundTiesToEven_def Let_def
  by (auto simp: floor_le_iff)

lemma roundTiesToEven_near: "\<bar>of_int (roundTiesToEven y) - y\<bar> \<le> 1 / 2"
  unfolding roundTiesToEven_def Let_def
  by auto

lemma scale_powi:
  assumes "- 1074 \<le> e"
  shows "(2::real) powi e * 2 ^ 1074 = of_int (2 ^ nat (e + 1074))"
proof -
  have "(2::real) powi e * 2 powi 1074 = 2 powi (e + 1074)"
    by (rule power_int_add [symmetric]) simp
  also have "\<dots> = 2 ^ nat (e + 1074)"
    using assms by (simp only: power_int_def) simp
  finally show ?thesis
    by (simp only: power_int_numeral of_int_power of_int_numeral)
qed

lemma grid_exponent_le:
  assumes "\<bar>x\<bar> < 2 powi e" and "- 1021 \<le> e"
  shows "grid_exponent x \<le> e - 53"
proof -
  define s where "s = \<lfloor>\<bar>x\<bar> * 2 ^ 1074\<rfloor>"
  have "\<bar>x\<bar> * 2 ^ 1074 < 2 powi e * 2 ^ 1074"
    using assms(1) by (rule mult_strict_right_mono) (rule zero_less_power, simp)
  then have "\<bar>x\<bar> * 2 ^ 1074 < of_int (2 ^ nat (e + 1074))"
    using assms(2) by (simp only: scale_powi)
  then have "s < 2 ^ nat (e + 1074)"
    unfolding s_def by (simp only: floor_less_iff)
  then have "bitlen s \<le> e + 1074"
    using assms(2) by (simp only: bitlen_le_iff_power) simp
  with assms(2) show ?thesis
    unfolding grid_exponent_def s_def [symmetric] by simp
qed

lemma grid_exponent_ge:
  assumes "2 powi e \<le> \<bar>x\<bar>" and "- 1074 \<le> e"
  shows "e - 52 \<le> grid_exponent x"
proof -
  define s where "s = \<lfloor>\<bar>x\<bar> * 2 ^ 1074\<rfloor>"
  have "2 powi e * 2 ^ 1074 \<le> \<bar>x\<bar> * 2 ^ 1074"
    using assms(1) by (rule mult_right_mono) (rule zero_le_power, simp)
  then have "of_int (2 ^ nat (e + 1074)) \<le> \<bar>x\<bar> * 2 ^ 1074"
    using assms(2) by (simp only: scale_powi)
  then have "2 ^ nat (e + 1074) \<le> s"
    unfolding s_def by (simp only: le_floor_iff)
  moreover have n: "nat (e + 1075) - 1 = nat (e + 1074)"
    using assms(2) by simp
  ultimately have "2 ^ (nat (e + 1075) - 1) \<le> s"
    by (simp only: n)
  then have "e + 1075 \<le> bitlen s"
    by (simp only: bitlen_ge_iff_power) simp
  then show ?thesis
    unfolding grid_exponent_def s_def [symmetric] by simp
qed

lemma grid_exponent_eq:
  assumes "2 powi e \<le> \<bar>x\<bar>" and "\<bar>x\<bar> < 2 powi (e + 1)" and "- 1022 \<le> e"
  shows "grid_exponent x = e - 52"
  using grid_exponent_le [OF assms(2)] grid_exponent_ge [OF assms(1)] assms(3) by simp

text \<open>On the grid of exponent \<open>q \<le> 0\<close>, a double is a whole number of \<open>2 ^ q\<close>.\<close>

lemma round_double_grid:
  assumes "grid_exponent x = - int k"
  shows "round_double x = of_int (roundTiesToEven (x * 2 ^ k)) / 2 ^ k"
proof -
  have p: "(2::real) powi (- int k) = inverse (2 ^ k)"
    by (simp add: power_int_minus)
  show ?thesis
    unfolding round_double_def assms p by (simp add: field_simps)
qed

text \<open>Rounding does not cross an integer: below \<open>2 ^ 53\<close> the integers are doubles.\<close>

lemma round_double_ge_int:
  assumes "\<bar>x\<bar> < 2 ^ 53" and "of_int m \<le> x"
  shows "of_int m \<le> round_double x"
proof -
  from assms(1) have "grid_exponent x \<le> 0"
    using grid_exponent_le [of x 53] by simp
  then obtain k where k: "grid_exponent x = - int k"
    by (metis nonpos_int_cases)
  have "of_int (m * 2 ^ k) \<le> x * 2 ^ k"
    using assms(2) by simp
  then have "m * 2 ^ k \<le> roundTiesToEven (x * 2 ^ k)"
    by (rule roundTiesToEven_ge)
  then have "of_int (m * 2 ^ k) \<le> (of_int (roundTiesToEven (x * 2 ^ k)) :: real)"
    by (simp only: of_int_le_iff)
  then show ?thesis
    unfolding round_double_grid [OF k] by (simp add: field_simps)
qed

lemma round_double_le_int:
  assumes "\<bar>x\<bar> < 2 ^ 53" and "x \<le> of_int m"
  shows "round_double x \<le> of_int m"
proof -
  from assms(1) have "grid_exponent x \<le> 0"
    using grid_exponent_le [of x 53] by simp
  then obtain k where k: "grid_exponent x = - int k"
    by (metis nonpos_int_cases)
  have "x * 2 ^ k \<le> of_int (m * 2 ^ k)"
    using assms(2) by simp
  then have "roundTiesToEven (x * 2 ^ k) \<le> m * 2 ^ k"
    by (rule roundTiesToEven_le)
  then have "(of_int (roundTiesToEven (x * 2 ^ k)) :: real) \<le> of_int (m * 2 ^ k)"
    by (simp only: of_int_le_iff)
  then show ?thesis
    unfolding round_double_grid [OF k] by (simp add: field_simps)
qed

lemma round_double_of_int:
  assumes "\<bar>m\<bar> < 2 ^ 53"
  shows "round_double (of_int m) = of_int m"
proof -
  have "\<bar>real_of_int m\<bar> = of_int \<bar>m\<bar>"
    by simp
  also have "\<dots> < of_int (2 ^ 53)"
    using assms by (simp only: of_int_less_iff)
  finally have "\<bar>real_of_int m\<bar> < 2 ^ 53"
    by simp
  from round_double_ge_int [OF this, of m] round_double_le_int [OF this, of m]
  show ?thesis by simp
qed

text \<open>A double below 1 is at most \<open>1 - 2 ^ -53\<close>.\<close>

lemma double_below_one:
  assumes "round_double r = r" and "0 \<le> r" and "r < 1"
  shows "r \<le> 1 - 1 / 2 ^ 53"
proof (cases "r < 1 / 2")
  case True
  have "(1::real) / 2 \<le> 1 - 1 / 2 ^ 53"
    by simp
  with True show ?thesis by linarith
next
  case False
  define j where "j = roundTiesToEven (r * 2 ^ 53)"
  from False assms(2,3) have "2 powi (- 1) \<le> \<bar>r\<bar>" "\<bar>r\<bar> < 2 powi (- 1 + 1)"
    by (simp_all add: power_int_minus)
  then have "grid_exponent r = - 1 - 52"
    by (rule grid_exponent_eq) simp
  then have "grid_exponent r = - int 53"
    by simp
  from round_double_grid [OF this] assms(1)
  have r: "r = of_int j / 2 ^ 53"
    unfolding j_def by simp
  with assms(3) have "of_int j < (2 ^ 53 :: real)"
    by (simp add: divide_less_eq)
  then have "j < 2 ^ 53"
    by (simp only: of_int_less_numeral_power_cancel_iff)
  then have "j \<le> 2 ^ 53 - 1"
    by simp
  then have "(of_int j :: real) \<le> of_int (2 ^ 53 - 1)"
    by (simp only: of_int_le_iff)
  then have "(of_int j :: real) \<le> 2 ^ 53 - 1"
    by simp
  then have "of_int j / 2 ^ 53 \<le> ((2 ^ 53 - 1) / 2 ^ 53 :: real)"
    by (rule divide_right_mono) simp
  also have "\<dots> = 1 - 1 / 2 ^ 53"
    by (simp add: diff_divide_distrib)
  finally show ?thesis
    unfolding r .
qed

text \<open>The product of a double below 1 and \<open>1000000000\<close> does not round up to
  \<open>1000000000\<close>: on its grid, of exponent -23 at most, it is more than half a step away.\<close>

lemma round_double_scaled_less:
  assumes "0 \<le> r" and "r \<le> 1 - 1 / 2 ^ 53"
  shows "round_double (r * 1000000000) < 1000000000"
proof -
  define x where "x = r * 1000000000"
  define k where "k = nat (- grid_exponent x)"
  define y where "y = x * 2 ^ k"
  have "(0::real) < 1 / 2 ^ 53"
    by simp
  with assms(2) have "r < 1"
    by linarith
  then have x: "0 \<le> x" "x < 1000000000"
    using assms(1) by (simp_all add: x_def)
  then have "\<bar>x\<bar> < 2 powi 30"
    by simp
  then have "grid_exponent x \<le> 30 - 53"
    by (rule grid_exponent_le) simp
  then have k: "grid_exponent x = - int k" and k23: "23 \<le> k"
    by (simp_all add: k_def)
  have p: "(2::real) ^ 23 \<le> 2 ^ k"
    using k23 by (intro power_increasing) simp_all
  have "x \<le> 1000000000 - 1000000000 / 2 ^ 53"
    using assms(2) unfolding x_def by (simp add: algebra_simps)
  then have "y \<le> (1000000000 - 1000000000 / 2 ^ 53) * 2 ^ k"
    unfolding y_def by (rule mult_right_mono) simp
  also have "\<dots> = 1000000000 * 2 ^ k - (1000000000 / 2 ^ 53) * 2 ^ k"
    by (simp only: left_diff_distrib)
  also have "\<dots> \<le> 1000000000 * 2 ^ k - (1000000000 / 2 ^ 53) * 2 ^ 23"
    using p by simp
  also have "\<dots> < 1000000000 * 2 ^ k - 1 / 2"
    by simp
  finally have y: "y < 1000000000 * 2 ^ k - 1 / 2" .
  have "of_int (roundTiesToEven y) \<le> y + 1 / 2"
    using roundTiesToEven_near [of y] by linarith
  with y have "of_int (roundTiesToEven y) < (1000000000 * 2 ^ k :: real)"
    by linarith
  then have "of_int (roundTiesToEven y) / 2 ^ k < (1000000000 * 2 ^ k / 2 ^ k :: real)"
    by (rule divide_strict_right_mono) simp
  then show ?thesis
    unfolding round_double_grid [OF k] x_def [symmetric] y_def [symmetric] by simp
qed

text \<open>The two draws of the small platform, and their nonces: the product of the first
  is 299999999.99999998..., which rounds to 300000000.\<close>

lemma demo_draws_are_doubles:
  "round_double (5404319552844595 / 18014398509481984) = 5404319552844595 / 18014398509481984"
  "round_double (1 / 2) = 1 / 2"
proof -
  have "grid_exponent (5404319552844595 / 18014398509481984) = - int 54"
    using grid_exponent_eq [of "- 2" "5404319552844595 / 18014398509481984"]
    by (simp add: power_int_minus)
  from round_double_grid [OF this]
  show "round_double (5404319552844595 / 18014398509481984) = 5404319552844595 / 18014398509481984"
    by (simp add: roundTiesToEven_def)
  have "grid_exponent (1 / 2) = - int 53"
    using grid_exponent_eq [of "- 1" "1 / 2"] by (simp add: power_int_minus)
  from round_double_grid [OF this] show "round_double (1 / 2) = 1 / 2"
    by (simp add: roundTiesToEven_def)
qed

lemma demo_nonce:
  "Math_floor (Number_times (5404319552844595 / 18014398509481984) 1000000000) = 300000000"
  "Math_floor (Number_times (1 / 2) 1000000000) = 500000000"
proof -
  have "grid_exponent (5404319552844595 / 18014398509481984 * 1000000000) = - int 24"
    using grid_exponent_eq [of 28 "5404319552844595 / 18014398509481984 * 1000000000"] by simp
  from round_double_grid [OF this]
  show "Math_floor (Number_times (5404319552844595 / 18014398509481984) 1000000000) = 300000000"
    by (simp add: Number_times_def Math_floor_def roundTiesToEven_def Let_def)
  have "round_double (of_int 500000000) = of_int 500000000"
    by (rule round_double_of_int) simp
  then show "Math_floor (Number_times (1 / 2) 1000000000) = 500000000"
    by (simp add: Number_times_def Math_floor_def)
qed

subsection \<open>The bytes of a text\<close>

text \<open>No byte of the output of \<open>TextEncoder.encode\<close> is 0xF7: a code point below 0x80
  is its own byte, and of the two bytes of another the first is 0xC2 or 0xC3 and the
  second lies from 0x80 to 0xBF.\<close>

lemma unat_of_char: "unat (of_char c :: 8 word) = of_char c"
proof -
  have "(of_char c :: 8 word) = of_nat (of_char c)"
    by (simp only: of_nat_of_char)
  then have "unat (of_char c :: 8 word) = take_bit 8 (of_char c :: nat)"
    by (simp add: unsigned_of_nat)
  also have "\<dots> = of_char c"
    by (rule take_bit_nat_eq_self) (use nat_of_char_less_256 [of c] in simp)
  finally show ?thesis .
qed

lemma ascii_not_F7:
  assumes "(of_char c :: nat) < 0x80"
  shows "(of_char c :: 8 word) \<noteq> 0xF7"
proof
  assume "(of_char c :: 8 word) = 0xF7"
  then have "unat (of_char c :: 8 word) = unat (0xF7 :: 8 word)"
    by (rule arg_cong)
  then have "(of_char c :: nat) = 247"
    by (simp add: unat_of_char)
  with assms show False
    by simp
qed

lemma lead_not_F7: "0xC0 OR drop_bit 6 (w :: 8 word) \<noteq> 0xF7"
proof
  assume "0xC0 OR drop_bit 6 w = 0xF7"
  then have "bit (0xC0 OR drop_bit 6 w) 4 = bit (0xF7 :: 8 word) 4"
    by (rule arg_cong)
  moreover have "\<not> bit w 10"
    using bit_imp_le_length [of w 10] by auto
  ultimately show False
    by (simp add: bit_or_iff bit_drop_bit_eq)
qed

lemma cont_not_F7: "0x80 OR ((w :: 8 word) AND 0x3F) \<noteq> 0xF7"
proof
  assume "0x80 OR (w AND 0x3F) = 0xF7"
  then have "bit (0x80 OR (w AND 0x3F)) 6 = bit (0xF7 :: 8 word) 6"
    by (rule arg_cong)
  then show False
    by (simp add: bit_or_iff bit_and_iff)
qed

lemma utf8_char_no_F7: "0xF7 \<notin> set (utf8_char c)"
  using lead_not_F7 [of "of_char c"] cont_not_F7 [of "of_char c"] ascii_not_F7 [of c]
  by (cases "(of_char c :: nat) < 0x80") (simp_all add: utf8_char_def)

lemma TextEncoder_encode_no_F7: "0xF7 \<notin> set (TextEncoder_encode s)"
  using utf8_char_no_F7 by (simp add: TextEncoder_encode_def)

lemma has_prefix_set: "has_prefix xs ys \<Longrightarrow> set xs \<subseteq> set ys"
  by (induction xs ys rule: has_prefix.induct) auto

lemma has_infix_set: "has_infix xs ys \<Longrightarrow> set xs \<subseteq> set ys"
proof (induction ys)
  case Nil
  then show ?case by simp
next
  case (Cons y ys)
  from Cons.prems have "has_prefix xs (y # ys) \<or> has_infix xs ys"
    by simp
  then show ?case
  proof
    assume "has_prefix xs (y # ys)"
    then show ?thesis by (rule has_prefix_set)
  next
    assume "has_infix xs ys"
    then have "set xs \<subseteq> set ys" by (rule Cons.IH)
    then show ?thesis by auto
  qed
qed

text \<open>So the bytes of a text never hold the object identifier, and a platform that
  requires it of an \<open>spki\<close> key imports no key that \<open>GateHandler\<close> hands it.\<close>

lemma TextEncoder_encode_no_rsaEncryption: "\<not> has_infix rsaEncryption (TextEncoder_encode s)"
proof
  assume "has_infix rsaEncryption (TextEncoder_encode s)"
  then have "set rsaEncryption \<subseteq> set (TextEncoder_encode s)"
    by (rule has_infix_set)
  then have "0xF7 \<in> set (TextEncoder_encode s)"
    by (auto simp: rsaEncryption_def)
  with TextEncoder_encode_no_F7 show False
    by blast
qed

lemma imported_key_None:
  assumes "spki_requires_rsaEncryption p"
  shows "imported_key p pl = None"
proof (rule ccontr)
  assume "imported_key p pl \<noteq> None"
  with assms have "has_infix rsaEncryption (TextEncoder_encode (publicKey pl))"
    unfolding spki_requires_rsaEncryption_def imported_key_def by blast
  with TextEncoder_encode_no_rsaEncryption show False
    by blast
qed

lemma der_platform_requires_rsaEncryption: "spki_requires_rsaEncryption der_platform"
  by (simp add: spki_requires_rsaEncryption_def der_platform_def)

subsection \<open>What \<open>SendToGate\<close> sends\<close>

text \<open>A call adds no outbound request, or one, whose payload is built from the action,
  the clock and the draw.\<close>

lemma SendToGate_outbound:
  "outbound (snd (SendToGate p a env w)) = outbound w \<or>
   (\<exists>sg. outbound (snd (SendToGate p a env w)) = outbound w @
      [\<lparr>payload = \<lparr>value = \<lparr>ValueToGate.action = a, expiry = toISOString p (Date_now p + 60000),
                                nonce = Math_floor (Number_times (Math_random p (draws w)) 1000000000)\<rparr>,
                     signature = sg\<rparr>,
        url = GATE_URL env,
        init = \<lparr>RequestInit.method = ''POST'', headers = [(''Content-Type'', ''application/json'')],
                body = JSON_stringify (PayloadToGate_json
                  \<lparr>value = \<lparr>ValueToGate.action = a, expiry = toISOString p (Date_now p + 60000),
                                nonce = Math_floor (Number_times (Math_random p (draws w)) 1000000000)\<rparr>,
                     signature = sg\<rparr>)\<rparr>\<rparr>])"
proof (cases "TimeClip (Date_now p)")
  case None
  then show ?thesis
    by (simp add: SendToGate_def setMinutes_def getMinutes_def split: option.splits)
next
  case (Some t)
  then have t: "t = Date_now p" by (rule TimeClip_Some)
  show ?thesis
    using Some unfolding t
    by (auto simp: SendToGate_def setMinutes_plus_one Let_def dest: TimeClip_Some
        split: option.splits sum.splits)
qed

subsection \<open>Serialisation and the fixed responses\<close>

lemma digits_numeral:
  "digits (numeral k) =
     (if (numeral k :: nat) < 10 then [''0123456789'' ! numeral k]
      else digits (numeral k div 10) @ [''0123456789'' ! (numeral k mod 10)])"
  by (rule digits.simps)

lemma digits_small: "digits 0 = ''0''" "digits 1 = ''1''" "digits (Suc 0) = ''1''"
  by (simp_all add: digits.simps)

lemma btoa_String_fromCharCode: "btoa (String_fromCharCode bs) = base64 bs"
proof -
  have "of_char (char_of (unat b)) = b" for b :: "8 word"
  proof -
    have "unat b < 256" using unsigned_less [of b, where 'a = nat] by simp
    then have "(of_char (char_of (unat b)) :: nat) = unat b" by (simp add: of_char_of)
    then have "of_nat (of_char (char_of (unat b)) :: nat) = (of_nat (unat b) :: 8 word)" by simp
    then show ?thesis by (simp only: of_nat_of_char) simp
  qed
  then show ?thesis
    by (simp add: btoa_def String_fromCharCode_def comp_def)
qed

lemmas JSON_simps = NewJsonResponse_def QuoteJSONString_def JSON_escape_def JSON_escape_char_def

text \<open>The platform functions on known values: base64 with and without padding, a
  two-byte code point, the escapes of a string.\<close>

lemma btoa_examples:
  "btoa ''Man'' = ''TWFu''" "btoa ''Ma'' = ''TWE=''" "btoa ''M'' = ''TQ==''"
  by (simp_all add: btoa_def base64_digit_def)

lemma TextEncoder_encode_examples:
  "TextEncoder_encode ''OPEN'' = [0x4F, 0x50, 0x45, 0x4E]"
  "TextEncoder_encode [CHR 0xE9] = [0xC3, 0xA9]"
  by (simp_all add: TextEncoder_encode_def utf8_char_def)

lemma JSON_stringify_examples:
  \<open>JSON_stringify (JObject [(''a'', JString [CHR ''x'', CHR 0x22, CHR 0x5C, CHR 0x0A, CHR 0x1F]),
                            (''n'', JArray [JNumber 120, JNumber (- 7), JBoolean True])])
     = [CHR ''{'', CHR 0x22, CHR ''a'', CHR 0x22, CHR '':'', CHR 0x22, CHR ''x'', CHR 0x5C, CHR 0x22,
        CHR 0x5C, CHR 0x5C, CHR 0x5C, CHR ''n'', CHR 0x5C, CHR ''u'', CHR ''0'', CHR ''0'', CHR ''1'',
        CHR ''f'', CHR 0x22] @ '',"n":[120,-7,true]}''\<close>
  by (simp add: JSON_simps Number_toString_def digits_numeral digits_small hex_digit_def)

lemma GetUnauthorizedResponse_eq:
  \<open>GetUnauthorizedResponse =
     \<lparr>status = 401, headers = [(''Content-Type'', ''application/json'')],
      body = ''{"status":"failed","message":"Unauthorized"}''\<rparr>\<close>
  by (simp add: GetUnauthorizedResponse_def JSON_simps)

lemma GetNotProductionResponse_eq:
  \<open>GetNotProductionResponse =
     \<lparr>status = 403, headers = [(''Content-Type'', ''application/json'')],
      body = ''{"status":"failed","message":"Not allowed in production"}''\<rparr>\<close>
  by (simp add: GetNotProductionResponse_def JSON_simps)

subsection \<open>The steps of \<open>GateHandler\<close>\<close>

lemma fetch_gate_PATCH:
  "pathname request = ''/gate'' \<Longrightarrow> Request.method request = ''PATCH'' \<Longrightarrow>
   fetch p request env w = GateHandler p request env w"
  by (simp add: fetch_def)

lemma GateHandler_cases:
  assumes "json_DoorRequestPayload request = Some pl"
  shows "GateHandler p request env w =
     (case trust_lookup pl w of
        None \<Rightarrow> (Inr GetUnauthorizedResponse, w)
      | Some row \<Rightarrow>
          (case imported_key p pl of
             None \<Rightarrow> (Inl DataError, w)
           | Some k \<Rightarrow>
               if verify_call p k pl then SendToGate p (DoorRequestPayload.action pl) env w
               else (Inr GetUnauthorizedResponse, w)))"
  using assms
  by (simp add: GateHandler_def trust_lookup_def imported_key_def verify_call_def Let_def
      split: option.splits)

lemma trust_lookup_None_iff:
  "trust_lookup pl w = None \<longleftrightarrow>
     (\<forall>r\<in>set (PublicKeys w). public_keys.key r = publicKey pl \<longrightarrow> public_keys.trusted r \<noteq> 1)"
  by (auto simp: trust_lookup_def findFirst_def find_None_iff toInt_def)

lemmas demo_simps =
  demo_platform_def demo_env_def offline_env_def demo_world_def gate_request_def
  trust_lookup_def findFirst_def toInt_def imported_key_def verify_call_def
  TextEncoder_encode_def utf8_char_def

section \<open>Properties of \<open>SendToGate\<close> and of the handlers\<close>

lemma TextEncoder_encode_ascii:
  "\<forall>c\<in>set s. (of_char c :: nat) < 128 \<Longrightarrow> TextEncoder_encode s = map of_char s"
  by (induction s) (simp_all add: TextEncoder_encode_def utf8_char_def)

text \<open>The run of \<open>SendToGate\<close> when the HMAC key imports and the dates are valid.\<close>

lemma SendToGate_run:
  assumes hk: "importKey p ''raw'' (TextEncoder_encode (GATE_HMAC_KEY env))
      (JObject [(''name'', JString ''HMAC''), (''hash'', JString ''SHA-256'')]) False [''sign''] = Some hk"
    and now: "\<bar>Date_now p\<bar> \<le> 8640000000000000" "Date_now p + 60000 \<le> 8640000000000000"
    and v: "v = \<lparr>ValueToGate.action = a, expiry = toISOString p (Date_now p + 60000),
                   nonce = Math_floor (Number_times (Math_random p (draws w)) 1000000000)\<rparr>"
    and sg: "sg = btoa (String_fromCharCode (sign p (JObject [(''name'', JString ''HMAC'')]) hk
                   (TextEncoder_encode (JSON_stringify (ValueToGate_json v)))))"
    and i: "i = \<lparr>RequestInit.method = ''POST'', headers = [(''Content-Type'', ''application/json'')],
                  body = JSON_stringify (PayloadToGate_json \<lparr>value = v, signature = sg\<rparr>)\<rparr>"
  shows "SendToGate p a env w =
     (case gate_fetch p (GATE_URL env) i of
        Inl e \<Rightarrow> Inl e
      | Inr response \<Rightarrow>
          Inr (if ok response
               then NewJsonResponse 200
                      (JObject [(''status'', JString ''success''),
                                (''message'', JString (''Gate action '' @ a @ '' sent successfully''))])
               else response),
      w\<lparr>outbound := outbound w @ [\<lparr>payload = \<lparr>value = v, signature = sg\<rparr>, url = GATE_URL env, init = i\<rparr>],
        draws := draws w + 1\<rparr>)"
proof -
  have c: "TimeClip (Date_now p) = Some (Date_now p)" "TimeClip (Date_now p + 60000) = Some (Date_now p + 60000)"
    using now by (simp_all add: TimeClip_def)
  show ?thesis
    unfolding SendToGate_def hk c setMinutes_plus_one Let_def v sg i
    by (simp split: sum.splits)
qed

lemma JSON_escape_append: "JSON_escape (s @ t) = JSON_escape s @ JSON_escape t"
  by (simp add: JSON_escape_def)

lemma JSON_escape_Nil: "JSON_escape [] = []"
  by (simp add: JSON_escape_def)

lemma JSON_escape_Cons: "JSON_escape (c # s) = JSON_escape_char c @ JSON_escape s"
  by (simp add: JSON_escape_def)

lemma sent_successfully_body:
  \<open>NewJsonResponse 200
     (JObject [(''status'', JString ''success''),
               (''message'', JString (''Gate action '' @ a @ '' sent successfully''))]) =
   \<lparr>status = 200, headers = [(''Content-Type'', ''application/json'')],
    body = ''{"status":"success","message":"Gate action '' @ JSON_escape a @ '' sent successfully"}''\<rparr>\<close>
  by (simp add: NewJsonResponse_def QuoteJSONString_def JSON_escape_append JSON_escape_Cons
      JSON_escape_Nil JSON_escape_char_def)

lemma JSON_escape_DoorAction: "JSON_escape (DoorAction_string d) = DoorAction_string d"
  by (cases d) (simp_all add: JSON_simps)

text \<open>The three ways a call of \<open>SendToGate\<close> ends.\<close>

lemma SendToGate_cases:
  obtains (no_key) "SendToGate p a env w = (Inl DataError, w)"
  | (bad_date) "SendToGate p a env w = (Inl RangeError, w)"
  | (sent) pl i where
      "SendToGate p a env w =
         (case gate_fetch p (GATE_URL env) i of
            Inl e \<Rightarrow> Inl e
          | Inr response \<Rightarrow>
              Inr (if ok response
                   then NewJsonResponse 200
                          (JObject [(''status'', JString ''success''),
                                    (''message'', JString (''Gate action '' @ a @ '' sent successfully''))])
                   else response),
          w\<lparr>outbound := outbound w @ [\<lparr>payload = pl, url = GATE_URL env, init = i\<rparr>],
            draws := draws w + 1\<rparr>)"
proof (cases "importKey p ''raw'' (TextEncoder_encode (GATE_HMAC_KEY env))
      (JObject [(''name'', JString ''HMAC''), (''hash'', JString ''SHA-256'')]) False [''sign'']")
  case None
  then show ?thesis
    by (intro no_key) (simp add: SendToGate_def)
next
  case (Some hk)
  show ?thesis
  proof (cases "\<bar>Date_now p\<bar> \<le> 8640000000000000 \<and> Date_now p + 60000 \<le> 8640000000000000")
    case True
    then show ?thesis
      using SendToGate_run [OF Some _ _ refl refl refl, where w = w and a = a] sent by blast
  next
    case False
    have "SendToGate p a env w = (Inl RangeError, w)"
    proof (cases "TimeClip (Date_now p)")
      case None
      with Some show ?thesis
        by (simp add: SendToGate_def setMinutes_def getMinutes_def)
    next
      case (Some t)
      then have t: "t = Date_now p" by (rule TimeClip_Some)
      from Some False have "TimeClip (Date_now p + 60000) = None"
        by (simp add: TimeClip_def split: if_splits)
      with Some \<open>importKey p _ _ _ _ _ = Some hk\<close> show ?thesis
        unfolding t by (simp add: SendToGate_def setMinutes_plus_one)
    qed
    then show ?thesis by (rule bad_date)
  qed
qed

lemma SendToGate_PublicKeys: "PublicKeys (snd (SendToGate p a env w)) = PublicKeys w"
  by (cases rule: SendToGate_cases [of p a env w]) simp_all

lemma GateHandler_PublicKeys: "PublicKeys (snd (GateHandler p request env w)) = PublicKeys w"
  by (simp add: GateHandler_def SendToGate_PublicKeys Let_def split: option.splits)

lemma update_keeps_keys:
  "map public_keys.key (PublicKeys (update_set_where t k (\<lambda>r. public_keys.key r = k) w))
     = map public_keys.key (PublicKeys w)"
  by (simp add: update_set_where_def)

lemma findFirst_key_None_iff:
  "findFirst (\<lambda>r. public_keys.key r = k) w = None \<longleftrightarrow> k \<notin> set (map public_keys.key (PublicKeys w))"
  by (auto simp: findFirst_def find_None_iff)

subsection \<open>The model on the small platform\<close>

lemmas stringify_simps =
  ValueToGate_json_def PayloadToGate_json_def Number_toString_def digits_numeral digits_small
  QuoteJSONString_def JSON_escape_def JSON_escape_char_def

lemma demo_hmac_key:
  "importKey demo_platform ''raw'' (TextEncoder_encode ''secret'')
      (JObject [(''name'', JString ''HMAC''), (''hash'', JString ''SHA-256'')]) False [''sign'']
     = Some (TextEncoder_encode ''secret'')"
  by (simp add: demo_simps)

lemma demo_SendToGate_OPEN:
  \<open>SendToGate demo_platform ''OPEN'' demo_env demo_world =
     (Inr \<lparr>status = 200, headers = [(''Content-Type'', ''application/json'')],
           body = ''{"status":"success","message":"Gate action OPEN sent successfully"}''\<rparr>,
      demo_world\<lparr>outbound :=
        [\<lparr>payload = \<lparr>value = \<lparr>ValueToGate.action = ''OPEN'', expiry = ''3659999'', nonce = 300000000\<rparr>,
                      signature = ''BjY=''\<rparr>,
          url = ''https://gate.example/command'',
          init = \<lparr>RequestInit.method = ''POST'', headers = [(''Content-Type'', ''application/json'')],
                  body = ''{"value":{"action":"OPEN","expiry":"3659999","nonce":300000000},"signature":"BjY="}''\<rparr>\<rparr>],
        draws := 1\<rparr>)\<close>
proof -
  let ?v = "\<lparr>ValueToGate.action = ''OPEN'', expiry = ''3659999'', nonce = 300000000\<rparr>"
  have k: "importKey demo_platform ''raw'' (TextEncoder_encode (GATE_HMAC_KEY demo_env))
      (JObject [(''name'', JString ''HMAC''), (''hash'', JString ''SHA-256'')]) False [''sign'']
     = Some (TextEncoder_encode ''secret'')"
    using demo_hmac_key by (simp add: demo_env_def)
  have n: "\<bar>Date_now demo_platform\<bar> \<le> 8640000000000000"
    "Date_now demo_platform + 60000 \<le> 8640000000000000"
    by (simp_all add: demo_platform_def)
  have v: "?v = \<lparr>ValueToGate.action = ''OPEN'',
      expiry = toISOString demo_platform (Date_now demo_platform + 60000),
      nonce = Math_floor (Number_times (Math_random demo_platform (draws demo_world)) 1000000000)\<rparr>"
    using demo_nonce by (simp add: demo_platform_def demo_world_def stringify_simps)
  have j: \<open>JSON_stringify (ValueToGate_json ?v) = ''{"action":"OPEN","expiry":"3659999","nonce":300000000}''\<close>
    by (simp add: stringify_simps)
  have sg: "''BjY='' = btoa (String_fromCharCode (sign demo_platform (JObject [(''name'', JString ''HMAC'')])
      (TextEncoder_encode ''secret'') (TextEncoder_encode (JSON_stringify (ValueToGate_json ?v)))))"
    unfolding j
    by (simp add: demo_platform_def TextEncoder_encode_def utf8_char_def btoa_String_fromCharCode
        base64_digit_def)
  have i: \<open>\<lparr>RequestInit.method = ''POST'', headers = [(''Content-Type'', ''application/json'')],
      body = ''{"value":{"action":"OPEN","expiry":"3659999","nonce":300000000},"signature":"BjY="}''\<rparr> =
    \<lparr>RequestInit.method = ''POST'', headers = [(''Content-Type'', ''application/json'')],
      body = JSON_stringify (PayloadToGate_json \<lparr>value = ?v, signature = ''BjY=''\<rparr>)\<rparr>\<close>
    by (simp add: stringify_simps)
  show ?thesis
    unfolding SendToGate_run [OF k n v sg i] sent_successfully_body
    by (simp add: demo_platform_def demo_env_def demo_world_def ok_def JSON_escape_Cons JSON_escape_Nil
        JSON_escape_char_def)
qed

lemma demo_SendToGate_sent:
  assumes "GATE_HMAC_KEY env = ''secret''"
  shows "\<exists>sg i. SendToGate demo_platform a env w =
     (case gate_fetch demo_platform (GATE_URL env) i of
        Inl e \<Rightarrow> Inl e
      | Inr response \<Rightarrow>
          Inr (if ok response
               then NewJsonResponse 200
                      (JObject [(''status'', JString ''success''),
                                (''message'', JString (''Gate action '' @ a @ '' sent successfully''))])
               else response),
      w\<lparr>outbound := outbound w @
         [\<lparr>payload = \<lparr>value = \<lparr>ValueToGate.action = a, expiry = ''3659999'',
                                  nonce = Math_floor (Number_times
                                    (Math_random demo_platform (draws w)) 1000000000)\<rparr>,
                       signature = sg\<rparr>,
           url = GATE_URL env, init = i\<rparr>],
         draws := draws w + 1\<rparr>)"
proof -
  have k: "importKey demo_platform ''raw'' (TextEncoder_encode (GATE_HMAC_KEY env))
      (JObject [(''name'', JString ''HMAC''), (''hash'', JString ''SHA-256'')]) False [''sign'']
     = Some (TextEncoder_encode ''secret'')"
    using demo_hmac_key assms by simp
  have n: "\<bar>Date_now demo_platform\<bar> \<le> 8640000000000000"
    "Date_now demo_platform + 60000 \<le> 8640000000000000"
    by (simp_all add: demo_platform_def)
  have v: "\<lparr>ValueToGate.action = a, expiry = ''3659999'',
       nonce = Math_floor (Number_times (Math_random demo_platform (draws w)) 1000000000)\<rparr> =
     \<lparr>ValueToGate.action = a,
      expiry = toISOString demo_platform (Date_now demo_platform + 60000),
      nonce = Math_floor (Number_times (Math_random demo_platform (draws w)) 1000000000)\<rparr>"
    by (simp add: demo_platform_def stringify_simps)
  show ?thesis
    using SendToGate_run [OF k n v refl refl] by blast
qed

text \<open>The registry keeps the keys of the store distinct.\<close>

lemma fetch_keeps_keys_distinct:
  assumes "distinct (map public_keys.key (PublicKeys w))"
  shows "distinct (map public_keys.key (PublicKeys (snd (fetch p request env w))))"
proof -
  have post: "distinct (map public_keys.key (PublicKeys (snd (PublicKeyPostHandler request env w))))"
    using assms
    by (auto simp: PublicKeyPostHandler_def Let_def insert_values_def findFirst_def find_None_iff
        split: option.splits)
  have del: "distinct (map public_keys.key (PublicKeys (snd (PublicKeyDeleteHandler request env w))))"
    using assms
    by (auto simp: PublicKeyDeleteHandler_def Let_def delete_where_def distinct_map_filter
        split: option.splits)
  have upd: "distinct (map public_keys.key (PublicKeys (snd (PublicKeyUpdateHandler request env w))))"
    using assms
    by (auto simp: PublicKeyUpdateHandler_def update_keeps_keys split: option.splits)
  have get: "snd (PublicKeyGetHandler request env w) = w"
    by (simp add: PublicKeyGetHandler_def Let_def)
  have tab: "snd (TableHandler request env w) = w"
    by (simp add: TableHandler_def)
  show ?thesis
    using assms post del upd
    by (simp add: fetch_def get tab GateHandler_PublicKeys)
qed

section \<open>The claims\<close>

text \<open>
  C1. A \<open>PATCH /gate\<close> request whose key is not in the store, or is in the store with
  \<open>trusted = false\<close>, gets the response 401 \<open>{"status":"failed","message":"Unauthorized"}\<close>,
  whatever the platform's \<open>verify\<close> says of its signature, and the same response in both
  cases. The keys of the store are distinct, as the registry keeps them.
\<close>

theorem gate_unknown_or_untrusted_key:
  assumes "pathname request = ''/gate''" and "Request.method request = ''PATCH''"
    and "json_DoorRequestPayload request = Some pl"
    and "distinct (map public_keys.key (PublicKeys w))"
    and "(\<forall>r\<in>set (PublicKeys w). public_keys.key r \<noteq> publicKey pl) \<or>
         (\<exists>r\<in>set (PublicKeys w). public_keys.key r = publicKey pl \<and> public_keys.trusted r = toInt False)"
  shows \<open>fetch p request env w =
     (Inr \<lparr>status = 401, headers = [(''Content-Type'', ''application/json'')],
           body = ''{"status":"failed","message":"Unauthorized"}''\<rparr>, w)\<close>
proof -
  have "trust_lookup pl w = None"
    unfolding trust_lookup_None_iff
  proof (intro ballI impI)
    fix r assume r: "r \<in> set (PublicKeys w)" "public_keys.key r = publicKey pl"
    from assms(5) r obtain r' where r': "r' \<in> set (PublicKeys w)"
      "public_keys.key r' = publicKey pl" "public_keys.trusted r' = 0"
      by (auto simp: toInt_def)
    from assms(4) r r' have "r = r'"
      by (metis distinct_map inj_onD)
    with r' show "public_keys.trusted r \<noteq> 1" by simp
  qed
  then show ?thesis
    using assms(1-3)
    by (simp add: fetch_gate_PATCH GateHandler_cases GetUnauthorizedResponse_eq)
qed

theorem gate_unknown_or_untrusted_key_witness:
  \<open>verify_call demo_platform (TextEncoder_encode ''0U'')
      \<lparr>DoorRequestPayload.signature = ''0UOPEN'', action = ''OPEN'', publicKey = ''0U''\<rparr>
   \<and> fetch demo_platform
      (gate_request \<lparr>DoorRequestPayload.signature = ''0UOPEN'', action = ''OPEN'', publicKey = ''0U''\<rparr>)
      demo_env demo_world =
     (Inr \<lparr>status = 401, headers = [(''Content-Type'', ''application/json'')],
           body = ''{"status":"failed","message":"Unauthorized"}''\<rparr>, demo_world)
   \<and> fetch demo_platform
      (gate_request \<lparr>DoorRequestPayload.signature = ''0XOPEN'', action = ''OPEN'', publicKey = ''0X''\<rparr>)
      demo_env demo_world =
     (Inr \<lparr>status = 401, headers = [(''Content-Type'', ''application/json'')],
           body = ''{"status":"failed","message":"Unauthorized"}''\<rparr>, demo_world)\<close>
proof -
  have d: "distinct (map public_keys.key (PublicKeys demo_world))"
    by (simp add: demo_world_def)
  have v: \<open>verify_call demo_platform (TextEncoder_encode ''0U'')
      \<lparr>DoorRequestPayload.signature = ''0UOPEN'', action = ''OPEN'', publicKey = ''0U''\<rparr>\<close>
    by (simp add: demo_simps)
  note u = gate_unknown_or_untrusted_key
    [of "gate_request \<lparr>DoorRequestPayload.signature = ''0UOPEN'', action = ''OPEN'', publicKey = ''0U''\<rparr>"
        "\<lparr>DoorRequestPayload.signature = ''0UOPEN'', action = ''OPEN'', publicKey = ''0U''\<rparr>"
        demo_world demo_platform demo_env, OF _ _ _ d]
  note x = gate_unknown_or_untrusted_key
    [of "gate_request \<lparr>DoorRequestPayload.signature = ''0XOPEN'', action = ''OPEN'', publicKey = ''0X''\<rparr>"
        "\<lparr>DoorRequestPayload.signature = ''0XOPEN'', action = ''OPEN'', publicKey = ''0X''\<rparr>"
        demo_world demo_platform demo_env, OF _ _ _ d]
  have 1: "fetch demo_platform
      (gate_request \<lparr>DoorRequestPayload.signature = ''0UOPEN'', action = ''OPEN'', publicKey = ''0U''\<rparr>)
      demo_env demo_world =
     (Inr \<lparr>status = 401, headers = [(''Content-Type'', ''application/json'')],
           body = ''{\"status\":\"failed\",\"message\":\"Unauthorized\"}''\<rparr>, demo_world)"
    by (rule u) (simp_all add: gate_request_def demo_world_def toInt_def)
  have 2: "fetch demo_platform
      (gate_request \<lparr>DoorRequestPayload.signature = ''0XOPEN'', action = ''OPEN'', publicKey = ''0X''\<rparr>)
      demo_env demo_world =
     (Inr \<lparr>status = 401, headers = [(''Content-Type'', ''application/json'')],
           body = ''{\"status\":\"failed\",\"message\":\"Unauthorized\"}''\<rparr>, demo_world)"
    by (rule x) (simp_all add: gate_request_def demo_world_def toInt_def)
  from v 1 2 show ?thesis by simp
qed

text \<open>
  C2. A \<open>PATCH /gate\<close> request that fails the trust lookup, or whose signature does not
  verify (the key cannot be imported, or \<open>verify\<close> answers false), causes no outbound
  request: the list of the requests sent to the gate is what it was, the state is
  unchanged, and the handler ends with the 401 response or the fault of the import.
\<close>

theorem gate_no_dispatch_unless_authorized:
  assumes "pathname request = ''/gate''" and "Request.method request = ''PATCH''"
    and "json_DoorRequestPayload request = Some pl"
    and "trust_lookup pl w = None \<or> (\<forall>k. imported_key p pl = Some k \<longrightarrow> \<not> verify_call p k pl)"
  shows "outbound (snd (fetch p request env w)) = outbound w
     \<and> snd (fetch p request env w) = w
     \<and> (fst (fetch p request env w) = Inr GetUnauthorizedResponse
        \<or> fst (fetch p request env w) = Inl DataError)"
  using assms
  by (auto simp: fetch_gate_PATCH GateHandler_cases split: option.splits)

theorem gate_no_dispatch_unless_authorized_witness:
  "trust_lookup \<lparr>DoorRequestPayload.signature = ''0UOPEN'', action = ''OPEN'', publicKey = ''0K''\<rparr> demo_world
     = Some \<lparr>id_col = 1, key = ''0K'', trusted = 1\<rparr>
   \<and> imported_key demo_platform
        \<lparr>DoorRequestPayload.signature = ''0UOPEN'', action = ''OPEN'', publicKey = ''0K''\<rparr>
     = Some (TextEncoder_encode ''0K'')
   \<and> outbound (snd (fetch demo_platform
        (gate_request \<lparr>DoorRequestPayload.signature = ''0UOPEN'', action = ''OPEN'', publicKey = ''0K''\<rparr>)
        demo_env demo_world)) = []"
proof -
  let ?pl = "\<lparr>DoorRequestPayload.signature = ''0UOPEN'', action = ''OPEN'', publicKey = ''0K''\<rparr>"
  have k: "imported_key demo_platform ?pl = Some (TextEncoder_encode ''0K'')"
    by (simp add: demo_simps)
  have v: "\<not> verify_call demo_platform (TextEncoder_encode ''0K'') ?pl"
    by (simp add: demo_simps)
  have t: "trust_lookup ?pl demo_world = Some \<lparr>id_col = 1, key = ''0K'', trusted = 1\<rparr>"
    by (simp add: demo_simps)
  have "pathname (gate_request ?pl) = ''/gate''" "Request.method (gate_request ?pl) = ''PATCH''"
    "json_DoorRequestPayload (gate_request ?pl) = Some ?pl"
    by (simp_all add: gate_request_def)
  from gate_no_dispatch_unless_authorized [OF this, where w = demo_world and p = demo_platform and env = demo_env]
    k v
  have "outbound (snd (fetch demo_platform (gate_request ?pl) demo_env demo_world)) = outbound demo_world"
    by simp
  with t k show ?thesis by (simp add: demo_world_def)
qed

text \<open>
  C3, as amended. For a trusted key, a key that cannot be imported makes the handler
  raise the fault of \<open>importKey\<close> (no response is built, the state is unchanged); a
  signature that does not verify, malformed or not, gets the 401 response.
\<close>

theorem gate_malformed_key_raises:
  assumes "pathname request = ''/gate''" and "Request.method request = ''PATCH''"
    and "json_DoorRequestPayload request = Some pl"
    and "trust_lookup pl w = Some row"
  shows \<open>(imported_key p pl = None \<longrightarrow> fetch p request env w = (Inl DataError, w)) \<and>
     (\<forall>k. imported_key p pl = Some k \<and> \<not> verify_call p k pl \<longrightarrow>
        fetch p request env w =
          (Inr \<lparr>status = 401, headers = [(''Content-Type'', ''application/json'')],
                body = ''{"status":"failed","message":"Unauthorized"}''\<rparr>, w))\<close>
  using assms
  by (simp add: fetch_gate_PATCH GateHandler_cases GetUnauthorizedResponse_eq)

theorem gate_malformed_key_raises_witness:
  \<open>imported_key demo_platform
      \<lparr>DoorRequestPayload.signature = ''abcOPEN'', action = ''OPEN'', publicKey = ''abc''\<rparr> = None
   \<and> fetch demo_platform
      (gate_request \<lparr>DoorRequestPayload.signature = ''abcOPEN'', action = ''OPEN'', publicKey = ''abc''\<rparr>)
      demo_env demo_world = (Inl DataError, demo_world)
   \<and> imported_key demo_platform
      \<lparr>DoorRequestPayload.signature = ''!'', action = ''OPEN'', publicKey = ''0K''\<rparr>
      = Some (TextEncoder_encode ''0K'')
   \<and> fetch demo_platform
      (gate_request \<lparr>DoorRequestPayload.signature = ''!'', action = ''OPEN'', publicKey = ''0K''\<rparr>)
      demo_env demo_world =
        (Inr \<lparr>status = 401, headers = [(''Content-Type'', ''application/json'')],
              body = ''{"status":"failed","message":"Unauthorized"}''\<rparr>, demo_world)\<close>
proof -
  let ?bad = "\<lparr>DoorRequestPayload.signature = ''abcOPEN'', action = ''OPEN'', publicKey = ''abc''\<rparr>"
  let ?sig = "\<lparr>DoorRequestPayload.signature = ''!'', action = ''OPEN'', publicKey = ''0K''\<rparr>"
  have b: "imported_key demo_platform ?bad = None"
    by (simp add: demo_simps)
  have bt: "trust_lookup ?bad demo_world = Some \<lparr>id_col = 3, key = ''abc'', trusted = 1\<rparr>"
    by (simp add: demo_simps)
  have k: "imported_key demo_platform ?sig = Some (TextEncoder_encode ''0K'')"
    by (simp add: demo_simps)
  have v: "\<not> verify_call demo_platform (TextEncoder_encode ''0K'') ?sig"
    by (simp add: demo_simps)
  have t: "trust_lookup ?sig demo_world = Some \<lparr>id_col = 1, key = ''0K'', trusted = 1\<rparr>"
    by (simp add: demo_simps)
  have r: "pathname (gate_request x) = ''/gate''" "Request.method (gate_request x) = ''PATCH''"
    "json_DoorRequestPayload (gate_request x) = Some x" for x
    by (simp_all add: gate_request_def)
  from gate_malformed_key_raises [OF r bt, of demo_platform demo_env] b
  have 1: "fetch demo_platform (gate_request ?bad) demo_env demo_world = (Inl DataError, demo_world)"
    by blast
  from gate_malformed_key_raises [OF r t, of demo_platform demo_env] k v
  have 2: \<open>fetch demo_platform (gate_request ?sig) demo_env demo_world =
        (Inr \<lparr>status = 401, headers = [(''Content-Type'', ''application/json'')],
              body = ''{"status":"failed","message":"Unauthorized"}''\<rparr>, demo_world)\<close>
    by blast
  from b 1 k 2 show ?thesis by (intro conjI)
qed

text \<open>
  C3 as stated fails: the trusted key \<open>abc\<close> is not an \<open>spki\<close> key, and the request
  ends in the fault, not in the 401 response.
\<close>

theorem gate_malformed_key_counterexample:
  "fst (fetch demo_platform
      (gate_request \<lparr>DoorRequestPayload.signature = ''abcOPEN'', action = ''OPEN'', publicKey = ''abc''\<rparr>)
      demo_env demo_world) = Inl DataError
   \<and> fst (fetch demo_platform
      (gate_request \<lparr>DoorRequestPayload.signature = ''abcOPEN'', action = ''OPEN'', publicKey = ''abc''\<rparr>)
      demo_env demo_world) \<noteq> Inr GetUnauthorizedResponse"
  by (simp add: fetch_gate_PATCH GateHandler_cases demo_simps)

text \<open>
  C4, as amended. The nonce of a command that is sent is a 32-bit unsigned integer
  drawn at random from the integers 0 to 999999999, not from the full 32-bit space:
  it is \<open>Math.floor\<close> of the double product of \<open>1000000000\<close> and the double from 0 up to 1
  that \<open>Math.random()\<close> draws for this command. That is the index of the interval of
  width \<open>10^-9\<close> that holds the draw, or the index after it when the product rounds up
  to the next integer, so the nonce is as uniform as the draws are. No counter enters
  it and no draw is used again: the next command takes the next draw.
\<close>

theorem nonce_of_fresh_draw:
  assumes "0 \<le> Math_random p (draws w)" and "Math_random p (draws w) < 1"
    and "round_double (Math_random p (draws w)) = Math_random p (draws w)"
    and "SendToGate p a env w = (res, w')" and "outbound w' = outbound w @ [e]"
    and "SendToGate p a' env' w' = (res', w'')" and "outbound w'' = outbound w' @ [e']"
  shows "nonce (value (payload e)) = Math_floor (Number_times (Math_random p (draws w)) 1000000000)
     \<and> nonce (value (payload e')) = Math_floor (Number_times (Math_random p (draws w + 1)) 1000000000)
     \<and> 0 \<le> nonce (value (payload e)) \<and> nonce (value (payload e)) < 1000000000
     \<and> nonce (value (payload e)) < 2 ^ 32
     \<and> \<lfloor>Math_random p (draws w) * 1000000000\<rfloor> \<le> nonce (value (payload e))
     \<and> nonce (value (payload e)) \<le> \<lfloor>Math_random p (draws w) * 1000000000\<rfloor> + 1"
proof -
  define r where "r = Math_random p (draws w)"
  define x where "x = r * 1000000000"
  from assms(1-3) have r: "0 \<le> r" "r < 1" "round_double r = r"
    by (simp_all add: r_def)
  from assms(4,5) SendToGate_outbound [of p a env w]
  have n: "nonce (value (payload e)) = Math_floor (Number_times r 1000000000)"
    by (auto simp: r_def)
  have d: "draws w' = draws w + 1"
  proof (cases rule: SendToGate_cases [of p a env w])
    case no_key
    with assms(4,5) show ?thesis by simp
  next
    case bad_date
    with assms(4,5) show ?thesis by simp
  next
    case (sent pl i)
    with assms(4) show ?thesis by auto
  qed
  from assms(6,7) SendToGate_outbound [of p a' env' w']
  have n': "nonce (value (payload e')) = Math_floor (Number_times (Math_random p (draws w + 1)) 1000000000)"
    by (auto simp: d)
  have x: "0 \<le> x" "x < 1000000000"
    using r by (simp_all add: x_def)
  then have a: "\<bar>x\<bar> < 2 ^ 53"
    by simp
  have "of_int \<lfloor>x\<rfloor> \<le> x" "x \<le> of_int (\<lfloor>x\<rfloor> + 1)"
    by linarith+
  from round_double_ge_int [OF a this(1)] round_double_le_int [OF a this(2)]
  have b: "of_int \<lfloor>x\<rfloor> \<le> round_double x" "round_double x \<le> of_int (\<lfloor>x\<rfloor> + 1)" .
  then have f: "\<lfloor>x\<rfloor> \<le> \<lfloor>round_double x\<rfloor>" "\<lfloor>round_double x\<rfloor> \<le> \<lfloor>x\<rfloor> + 1"
    by (simp_all add: le_floor_iff floor_le_iff)
  from double_below_one [OF r(3,1,2)] r(1)
  have "round_double x < 1000000000"
    unfolding x_def by (rule round_double_scaled_less [rotated])
  then have u: "\<lfloor>round_double x\<rfloor> < 1000000000"
    by (simp add: floor_less_iff)
  have "0 \<le> \<lfloor>x\<rfloor>"
    using x(1) by simp
  with f(1) have l: "0 \<le> \<lfloor>round_double x\<rfloor>"
    by linarith
  from n have "nonce (value (payload e)) = \<lfloor>round_double x\<rfloor>"
    by (simp add: Math_floor_def Number_times_def x_def)
  with n n' f u l show ?thesis
    unfolding x_def r_def by simp
qed

theorem nonce_of_fresh_draw_witness:
  "round_double (Math_random demo_platform 0) = Math_random demo_platform 0
   \<and> \<lfloor>Math_random demo_platform 0 * 1000000000\<rfloor> = 299999999
   \<and> map (\<lambda>e. nonce (value (payload e)))
        (outbound (snd (SendToGate demo_platform ''CLOSE'' demo_env
           (snd (SendToGate demo_platform ''OPEN'' demo_env demo_world))))) = [300000000, 500000000]"
proof -
  have k: "GATE_HMAC_KEY demo_env = ''secret''"
    by (simp add: demo_env_def)
  have d: "0 \<le> Math_random demo_platform n \<and> Math_random demo_platform n < 1
      \<and> round_double (Math_random demo_platform n) = Math_random demo_platform n" for n
    using demo_draws_are_doubles by (simp add: demo_platform_def)
  obtain res w1 where 1: "SendToGate demo_platform ''OPEN'' demo_env demo_world = (res, w1)"
    by (cases "SendToGate demo_platform ''OPEN'' demo_env demo_world")
  obtain res' w2 where 2: "SendToGate demo_platform ''CLOSE'' demo_env w1 = (res', w2)"
    by (cases "SendToGate demo_platform ''CLOSE'' demo_env w1")
  from demo_SendToGate_sent [OF k, of "''OPEN''" demo_world] 1
  obtain e where e: "outbound w1 = outbound demo_world @ [e]"
    by auto
  from demo_SendToGate_sent [OF k, of "''CLOSE''" w1] 2
  obtain e' where e': "outbound w2 = outbound w1 @ [e']"
    by auto
  from d [of "draws demo_world"]
  have d0: "0 \<le> Math_random demo_platform (draws demo_world)"
    "Math_random demo_platform (draws demo_world) < 1"
    "round_double (Math_random demo_platform (draws demo_world)) = Math_random demo_platform (draws demo_world)"
    by simp_all
  from nonce_of_fresh_draw [OF d0 1 e 2 e']
  have "nonce (value (payload e)) = Math_floor (Number_times (Math_random demo_platform (draws demo_world)) 1000000000)"
    "nonce (value (payload e')) = Math_floor (Number_times (Math_random demo_platform (draws demo_world + 1)) 1000000000)"
    by blast+
  then have "nonce (value (payload e)) = 300000000" "nonce (value (payload e')) = 500000000"
    using demo_nonce by (simp_all add: demo_platform_def demo_world_def)
  with e e' have "map (\<lambda>e. nonce (value (payload e))) (outbound w2) = [300000000, 500000000]"
    by (simp add: demo_world_def)
  moreover have "\<lfloor>Math_random demo_platform 0 * 1000000000\<rfloor> = 299999999"
    by (simp add: demo_platform_def)
  ultimately show ?thesis
    using d [of 0] 1 2 by simp
qed

text \<open>
  C4 as stated fails: the nonces do not cover the 32-bit space. No draw gives the
  32-bit value 4294967295.
\<close>

theorem nonce_full_range_counterexample:
  "\<not> (\<exists>(p :: 'k platform) a env w e.
        0 \<le> Math_random p (draws w) \<and> Math_random p (draws w) < 1
        \<and> outbound (snd (SendToGate p a env w)) = outbound w @ [e]
        \<and> nonce (value (payload e)) = 4294967295)"
proof
  assume "\<exists>(p :: 'k platform) a env w e.
        0 \<le> Math_random p (draws w) \<and> Math_random p (draws w) < 1
        \<and> outbound (snd (SendToGate p a env w)) = outbound w @ [e]
        \<and> nonce (value (payload e)) = 4294967295"
  then obtain p :: "'k platform" and a env w e
    where r: "0 \<le> Math_random p (draws w)" "Math_random p (draws w) < 1"
    and o: "outbound (snd (SendToGate p a env w)) = outbound w @ [e]"
    and n: "nonce (value (payload e)) = 4294967295"
    by blast
  define x where "x = Math_random p (draws w) * 1000000000"
  from o SendToGate_outbound [of p a env w]
  have "nonce (value (payload e)) = Math_floor (Number_times (Math_random p (draws w)) 1000000000)"
    by auto
  with n have f: "\<lfloor>round_double x\<rfloor> = 4294967295"
    by (simp add: Math_floor_def Number_times_def x_def)
  from r have "\<bar>x\<bar> < 2 ^ 53" "x \<le> of_int 1000000000"
    by (simp_all add: x_def)
  then have "round_double x \<le> of_int 1000000000"
    by (rule round_double_le_int)
  then have "\<lfloor>round_double x\<rfloor> \<le> 1000000000"
    by (simp add: floor_le_iff)
  with f show False
    by simp
qed

text \<open>
  C5. The \<open>expiry\<close> of a command that is sent is the rendering of the time of creation
  plus 60000 milliseconds: \<open>setMinutes (getMinutes () + 1)\<close> moves the time value by one
  minute exactly, and that is strictly later.
\<close>

theorem expiry_one_minute_after_creation:
  assumes "outbound (snd (SendToGate p a env w)) = outbound w @ [e]"
  shows "expiry (value (payload e)) = toISOString p (Date_now p + 60000)
     \<and> setMinutes (tza p) (Some (Date_now p))
          (map_option (\<lambda>m. m + 1) (getMinutes (tza p) (Some (Date_now p)))) = Some (Date_now p + 60000)
     \<and> Date_now p < Date_now p + 60000"
proof -
  from assms SendToGate_outbound [of p a env w]
  have x: "expiry (value (payload e)) = toISOString p (Date_now p + 60000)"
    by auto
  have "TimeClip (Date_now p + 60000) = Some (Date_now p + 60000)"
  proof (rule ccontr)
    assume "TimeClip (Date_now p + 60000) \<noteq> Some (Date_now p + 60000)"
    then have n: "TimeClip (Date_now p + 60000) = None"
      by (simp add: TimeClip_def split: if_splits)
    have "SendToGate p a env w = (Inl DataError, w) \<or> SendToGate p a env w = (Inl RangeError, w)"
    proof (cases "TimeClip (Date_now p)")
      case None
      then show ?thesis
        by (simp add: SendToGate_def setMinutes_def getMinutes_def split: option.splits)
    next
      case (Some t)
      then have "t = Date_now p" by (rule TimeClip_Some)
      with Some n show ?thesis
        by (simp add: SendToGate_def setMinutes_plus_one split: option.splits)
    qed
    with assms show False by auto
  qed
  with x show ?thesis
    by (simp add: setMinutes_plus_one)
qed

theorem expiry_one_minute_after_creation_witness:
  "Date_now demo_platform = 3599999
   \<and> getMinutes (tza demo_platform) (Some (Date_now demo_platform)) = Some 59
   \<and> map (\<lambda>e. expiry (value (payload e))) (outbound (snd (SendToGate demo_platform ''OPEN'' demo_env demo_world)))
       = [toISOString demo_platform 3659999]
   \<and> setMinutes (tza demo_platform) (Some 3599999) (Some 60) = Some 3659999"
proof -
  let ?w = "snd (SendToGate demo_platform ''OPEN'' demo_env demo_world)"
  have o: "outbound ?w = outbound demo_world @ [hd (outbound ?w)]"
    unfolding demo_SendToGate_OPEN by (simp add: demo_world_def)
  have m: "map (\<lambda>e. expiry (value (payload e))) (outbound ?w) = [expiry (value (payload (hd (outbound ?w))))]"
    unfolding demo_SendToGate_OPEN by (simp add: demo_world_def)
  have d: "Date_now demo_platform = 3599999"
    by (simp add: demo_platform_def)
  have g: "getMinutes (tza demo_platform) (Some (Date_now demo_platform)) = Some 59"
    by (simp add: demo_platform_def getMinutes_def LocalTime_def MinFromTime_def msPerMinute_def)
  from expiry_one_minute_after_creation [OF o] m d g show ?thesis
    by simp
qed

text \<open>
  C6. A call of \<open>SendToGate\<close> sends at most one request to the gate (no retry). When
  it sends one and the gate answers with a status from 200 to 299, the caller gets 200
  \<open>{"status":"success","message":"Gate action <ACTION> sent successfully"}\<close>; when the
  gate answers with any other status, the caller gets the gate's response as it is.
\<close>

theorem SendToGate_maps_gate_response:
  assumes "SendToGate p a env w = (res, w')" and "outbound w' = outbound w @ es" and "es \<noteq> []"
  shows \<open>\<exists>e. es = [e] \<and> url e = GATE_URL env \<and>
     (\<forall>response. gate_fetch p (url e) (init e) = Inr response \<longrightarrow>
        (ok response \<longrightarrow>
           res = Inr \<lparr>status = 200, headers = [(''Content-Type'', ''application/json'')],
                      body = ''{"status":"success","message":"Gate action '' @ JSON_escape a
                               @ '' sent successfully"}''\<rparr>)
        \<and> (\<not> ok response \<longrightarrow> res = Inr response))\<close>
proof (cases rule: SendToGate_cases [of p a env w])
  case no_key
  with assms show ?thesis by simp
next
  case bad_date
  with assms show ?thesis by simp
next
  case (sent pl i)
  let ?e = "\<lparr>payload = pl, url = GATE_URL env, init = i\<rparr>"
  from sent assms(1,2) have es: "es = [?e]"
    by auto
  from sent assms(1) have res: "res = (case gate_fetch p (GATE_URL env) i of
            Inl e \<Rightarrow> Inl e
          | Inr response \<Rightarrow>
              Inr (if ok response
                   then NewJsonResponse 200
                          (JObject [(''status'', JString ''success''),
                                    (''message'', JString (''Gate action '' @ a @ '' sent successfully''))])
                   else response))"
    by simp
  show ?thesis
    unfolding es res sent_successfully_body
    by (intro exI [of _ ?e]) simp
qed

theorem SendToGate_maps_gate_response_witness:
  \<open>fst (SendToGate demo_platform ''OPEN'' demo_env demo_world) =
     Inr \<lparr>status = 200, headers = [(''Content-Type'', ''application/json'')],
          body = ''{"status":"success","message":"Gate action OPEN sent successfully"}''\<rparr>
   \<and> length (outbound (snd (SendToGate demo_platform ''OPEN'' demo_env demo_world))) = 1
   \<and> fst (SendToGate demo_platform ''OPEN'' offline_env demo_world) =
       Inr \<lparr>status = 503, headers = [], body = ''gate offline''\<rparr>
   \<and> length (outbound (snd (SendToGate demo_platform ''OPEN'' offline_env demo_world))) = 1\<close>
proof -
  have run: \<open>fst (SendToGate demo_platform ''OPEN'' env demo_world) =
       Inr (if GATE_URL env = ''https://gate.example/command''
            then \<lparr>status = 200, headers = [(''Content-Type'', ''application/json'')],
                  body = ''{"status":"success","message":"Gate action OPEN sent successfully"}''\<rparr>
            else \<lparr>status = 503, headers = [], body = ''gate offline''\<rparr>)
     \<and> length (outbound (snd (SendToGate demo_platform ''OPEN'' env demo_world))) = 1\<close>
    if key: "GATE_HMAC_KEY env = ''secret''" for env
  proof -
    obtain res w' where r: "SendToGate demo_platform ''OPEN'' env demo_world = (res, w')"
      by (cases "SendToGate demo_platform ''OPEN'' env demo_world")
    from demo_SendToGate_sent [OF key, of "''OPEN''" demo_world] r
    have o: "outbound w' = outbound demo_world @ outbound w'" "outbound w' \<noteq> []"
      by (auto simp: demo_world_def)
    from SendToGate_maps_gate_response [OF r o]
    obtain e where e: "outbound w' = [e]" "url e = GATE_URL env"
      and m: \<open>\<And>response. gate_fetch demo_platform (url e) (init e) = Inr response \<Longrightarrow>
        (ok response \<longrightarrow>
           res = Inr \<lparr>status = 200, headers = [(''Content-Type'', ''application/json'')],
                      body = ''{"status":"success","message":"Gate action '' @ JSON_escape ''OPEN''
                               @ '' sent successfully"}''\<rparr>)
        \<and> (\<not> ok response \<longrightarrow> res = Inr response)\<close>
      by blast
    have g: "gate_fetch demo_platform (url e) (init e) =
        Inr (if GATE_URL env = ''https://gate.example/command''
             then \<lparr>status = 200, headers = [], body = ''done''\<rparr>
             else \<lparr>status = 503, headers = [], body = ''gate offline''\<rparr>)"
      by (simp add: demo_platform_def e)
    from m [OF g] have "res = Inr (if GATE_URL env = ''https://gate.example/command''
            then \<lparr>status = 200, headers = [(''Content-Type'', ''application/json'')],
                  body = ''{\"status\":\"success\",\"message\":\"Gate action OPEN sent successfully\"}''\<rparr>
            else \<lparr>status = 503, headers = [], body = ''gate offline''\<rparr>)"
      by (simp add: ok_def JSON_escape_Cons JSON_escape_Nil JSON_escape_char_def)
    with r e show ?thesis by simp
  qed
  from run [of demo_env] run [of offline_env] show ?thesis
    by (simp add: demo_env_def offline_env_def)
qed

text \<open>
  C7. The claim is that the verifier checks the signature under the decoded public key
  and yields a boolean. The handler passes \<open>TextEncoder.encode (publicKey)\<close>, the UTF-8
  bytes of the base64 text as transmitted, to \<open>importKey\<close> as \<open>spki\<close> key data, and does
  not decode the base64. On a platform that follows the Web Crypto standard these bytes
  are never a key, so for every trusted key the import is rejected and the request ends
  in the DataError fault with the state unchanged: \<open>verify\<close> is not called and no boolean
  is produced.
\<close>

theorem gate_key_import_fails:
  assumes "spki_requires_rsaEncryption p"
    and "pathname request = ''/gate''" and "Request.method request = ''PATCH''"
    and "json_DoorRequestPayload request = Some pl"
    and "trust_lookup pl w = Some row"
  shows "importKey p ''spki'' (TextEncoder_encode (publicKey pl))
           (JObject [(''name'', JString ''RSASSA-PKCS1-v1_5''), (''hash'', JString ''SHA-256'')])
           False [''verify''] = None
     \<and> fetch p request env w = (Inl DataError, w)"
  using assms imported_key_None [OF assms(1), of pl]
  by (simp add: fetch_gate_PATCH GateHandler_cases imported_key_def)

theorem gate_key_import_fails_witness:
  "trust_lookup \<lparr>DoorRequestPayload.signature = rsa_signature, action = ''OPEN'', publicKey = rsa_key\<rparr>
      rsa_world = Some \<lparr>id_col = 1, key = rsa_key, trusted = 1\<rparr>
   \<and> fetch der_platform
      (gate_request \<lparr>DoorRequestPayload.signature = rsa_signature, action = ''OPEN'', publicKey = rsa_key\<rparr>)
      demo_env rsa_world = (Inl DataError, rsa_world)"
proof -
  let ?pl = "\<lparr>DoorRequestPayload.signature = rsa_signature, action = ''OPEN'', publicKey = rsa_key\<rparr>"
  have t: "trust_lookup ?pl rsa_world = Some \<lparr>id_col = 1, key = rsa_key, trusted = 1\<rparr>"
    by (simp add: trust_lookup_def findFirst_def toInt_def rsa_world_def)
  have r: "pathname (gate_request ?pl) = ''/gate''" "Request.method (gate_request ?pl) = ''PATCH''"
    "json_DoorRequestPayload (gate_request ?pl) = Some ?pl"
    by (simp_all add: gate_request_def)
  from gate_key_import_fails [OF der_platform_requires_rsaEncryption r t, of demo_env] t
  show ?thesis by simp
qed



text \<open>
  C9. When \<open>ENVIRONMENT\<close> is not \<open>DEVELOPMENT\<close>, GET, DELETE and PATCH on
  \<open>/publicKey\<close> and PUT on \<open>/table\<close> are answered 403 \<open>Not allowed in production\<close> and
  change nothing. POST on \<open>/publicKey\<close> runs \<open>PublicKeyPostHandler\<close> in every
  environment, and a key that is not stored yet is added with \<open>trusted = 0\<close>.
\<close>

theorem registry_closed_outside_development:
  \<open>(ENVIRONMENT env \<noteq> ''DEVELOPMENT'' \<and>
      (pathname request = ''/publicKey'' \<and> Request.method request \<in> {''GET'', ''DELETE'', ''PATCH''}
       \<or> pathname request = ''/table'' \<and> Request.method request = ''PUT'') \<longrightarrow>
      fetch p request env w =
        (Inr \<lparr>status = 403, headers = [(''Content-Type'', ''application/json'')],
              body = ''{"status":"failed","message":"Not allowed in production"}''\<rparr>, w))
   \<and> (pathname request = ''/publicKey'' \<and> Request.method request = ''POST'' \<longrightarrow>
      fetch p request env w = PublicKeyPostHandler request env w
      \<and> (text_body request \<notin> set (map public_keys.key (PublicKeys w)) \<longrightarrow>
           fst (fetch p request env w) =
             Inr \<lparr>status = 200, headers = [(''Content-Type'', ''application/json'')],
                  body = ''{"status":"success","key":"'' @ JSON_escape (text_body request)
                         @ ''","message":"Key added"}''\<rparr>
           \<and> (\<exists>i. PublicKeys (snd (fetch p request env w)) =
                 PublicKeys w @ [\<lparr>id_col = i, key = text_body request, trusted = 0\<rparr>])))\<close>
proof -
  have 1: "fetch p request env w = (Inr GetNotProductionResponse, w)"
    if "ENVIRONMENT env \<noteq> ''DEVELOPMENT''"
      "pathname request = ''/publicKey'' \<and> Request.method request \<in> {''GET'', ''DELETE'', ''PATCH''}
       \<or> pathname request = ''/table'' \<and> Request.method request = ''PUT''"
    using that by (auto simp: fetch_def)
  have 2: "fetch p request env w = PublicKeyPostHandler request env w"
    if "pathname request = ''/publicKey''" "Request.method request = ''POST''"
    using that by (simp add: fetch_def)
  have 3: \<open>fst (PublicKeyPostHandler request env w) =
             Inr \<lparr>status = 200, headers = [(''Content-Type'', ''application/json'')],
                  body = ''{"status":"success","key":"'' @ JSON_escape (text_body request)
                         @ ''","message":"Key added"}''\<rparr>
           \<and> (\<exists>i. PublicKeys (snd (PublicKeyPostHandler request env w)) =
                 PublicKeys w @ [\<lparr>id_col = i, key = text_body request, trusted = 0\<rparr>])\<close>
    if "text_body request \<notin> set (map public_keys.key (PublicKeys w))"
  proof -
    from that have "findFirst (\<lambda>r. public_keys.key r = text_body request) w = None"
      by (simp add: findFirst_key_None_iff)
    then show ?thesis
      by (simp add: PublicKeyPostHandler_def Let_def insert_values_def toInt_def NewJsonResponse_def
          QuoteJSONString_def JSON_escape_Cons JSON_escape_Nil JSON_escape_char_def)
  qed
  from 1 2 3 show ?thesis
    unfolding GetNotProductionResponse_eq by metis
qed

theorem registry_closed_outside_development_witness:
  \<open>ENVIRONMENT demo_env = ''PRODUCTION''
   \<and> map (\<lambda>m. fetch demo_platform (registry_request m ''/publicKey'' ''0K'') demo_env demo_world)
        [''GET'', ''DELETE'', ''PATCH''] =
      replicate 3 (Inr \<lparr>status = 403, headers = [(''Content-Type'', ''application/json'')],
              body = ''{"status":"failed","message":"Not allowed in production"}''\<rparr>, demo_world)
   \<and> fetch demo_platform (registry_request ''PUT'' ''/table'' []) demo_env demo_world =
        (Inr \<lparr>status = 403, headers = [(''Content-Type'', ''application/json'')],
              body = ''{"status":"failed","message":"Not allowed in production"}''\<rparr>, demo_world)
   \<and> fetch demo_platform (registry_request ''POST'' ''/publicKey'' ''0N'') demo_env demo_world =
        (Inr \<lparr>status = 200, headers = [(''Content-Type'', ''application/json'')],
              body = ''{"status":"success","key":"0N","message":"Key added"}''\<rparr>,
         demo_world\<lparr>PublicKeys := PublicKeys demo_world @ [\<lparr>id_col = 4, key = ''0N'', trusted = 0\<rparr>],
                    sqlite_sequence := 4\<rparr>)\<close>
proof -
  let ?r403 = \<open>(Inr \<lparr>status = 403, headers = [(''Content-Type'', ''application/json'')],
              body = ''{"status":"failed","message":"Not allowed in production"}''\<rparr>, demo_world)\<close>
  have e: "ENVIRONMENT demo_env = ''PRODUCTION''" "ENVIRONMENT demo_env \<noteq> ''DEVELOPMENT''"
    by (simp_all add: demo_env_def)
  note c = registry_closed_outside_development [where env = demo_env and w = demo_world and p = demo_platform]
  have c1: "fetch demo_platform rq demo_env demo_world = ?r403"
    if "pathname rq = ''/publicKey'' \<and> Request.method rq \<in> {''GET'', ''DELETE'', ''PATCH''}
       \<or> pathname rq = ''/table'' \<and> Request.method rq = ''PUT''" for rq
    using c [where request = rq] e(2) that by blast
  have g: "fetch demo_platform (registry_request m ''/publicKey'' ''0K'') demo_env demo_world = ?r403"
    if "m \<in> {''GET'', ''DELETE'', ''PATCH''}" for m
    by (rule c1) (use that in \<open>simp add: registry_request_def\<close>)
  have t: "fetch demo_platform (registry_request ''PUT'' ''/table'' []) demo_env demo_world = ?r403"
    by (rule c1) (simp add: registry_request_def)
  have n: "''0N'' \<notin> set (map public_keys.key (PublicKeys demo_world))"
    by (simp add: demo_world_def)
  let ?rq = "registry_request ''POST'' ''/publicKey'' ''0N''"
  have rq: "pathname ?rq = ''/publicKey'' \<and> Request.method ?rq = ''POST''"
    "text_body ?rq = ''0N''"
    by (simp_all add: registry_request_def)
  have n': "text_body ?rq \<notin> set (map public_keys.key (PublicKeys demo_world))"
    by (simp add: registry_request_def demo_world_def)
  from c [where request = ?rq] n' rq(1)
  have p2: "fetch demo_platform ?rq demo_env demo_world = PublicKeyPostHandler ?rq demo_env demo_world"
    and p0: \<open>fst (fetch demo_platform ?rq demo_env demo_world) =
        Inr \<lparr>status = 200, headers = [(''Content-Type'', ''application/json'')],
              body = ''{"status":"success","key":"'' @ JSON_escape (text_body ?rq)
                         @ ''","message":"Key added"}''\<rparr>\<close>
    by blast+
  from p0 have p1: \<open>fst (fetch demo_platform ?rq demo_env demo_world) =
        Inr \<lparr>status = 200, headers = [(''Content-Type'', ''application/json'')],
              body = ''{"status":"success","key":"0N","message":"Key added"}''\<rparr>\<close>
    unfolding rq(2) by (simp add: JSON_escape_Cons JSON_escape_Nil JSON_escape_char_def)
  have p3: "snd (PublicKeyPostHandler (registry_request ''POST'' ''/publicKey'' ''0N'') demo_env demo_world) =
      demo_world\<lparr>PublicKeys := PublicKeys demo_world @ [\<lparr>id_col = 4, key = ''0N'', trusted = 0\<rparr>],
                    sqlite_sequence := 4\<rparr>"
    by (simp add: PublicKeyPostHandler_def registry_request_def demo_world_def findFirst_def
        insert_values_def toInt_def Let_def)
  have p: \<open>fetch demo_platform (registry_request ''POST'' ''/publicKey'' ''0N'') demo_env demo_world =
        (Inr \<lparr>status = 200, headers = [(''Content-Type'', ''application/json'')],
              body = ''{"status":"success","key":"0N","message":"Key added"}''\<rparr>,
         demo_world\<lparr>PublicKeys := PublicKeys demo_world @ [\<lparr>id_col = 4, key = ''0N'', trusted = 0\<rparr>],
                    sqlite_sequence := 4\<rparr>)\<close>
    using p1 p3 unfolding p2 by (simp add: prod_eq_iff)
  have m: "map (\<lambda>m. fetch demo_platform (registry_request m ''/publicKey'' ''0K'') demo_env demo_world)
        [''GET'', ''DELETE'', ''PATCH''] = replicate 3 ?r403"
    using g [of "''GET''"] g [of "''DELETE''"] g [of "''PATCH''"]
    by (simp add: numeral_3_eq_3)
  from e(1) m t p show ?thesis by (intro conjI)
qed

text \<open>
  C10. \<open>PublicKeyUpdateHandler\<close> answers 200 with \<open>newKey\<close>, \<open>"status":"success"\<close> and
  \<open>"message":"Key updated"\<close> for every body it can parse, whatever the store holds; when no
  stored key is the one named, the state is unchanged. \<open>PATCH /publicKey\<close> reaches the
  handler in the development environment.
\<close>

theorem update_of_absent_key_reports_success:
  assumes "json_KeyStore request = Some updateTo"
  shows \<open>fst (PublicKeyUpdateHandler request env w) =
       Inr \<lparr>status = 200, headers = [(''Content-Type'', ''application/json'')],
            body = ''{"newKey":{"key":"'' @ JSON_escape (KeyStore.key updateTo) @ ''","trusted":''
                   @ (if KeyStore.trusted updateTo then ''true'' else ''false'')
                   @ ''},"status":"success","message":"Key updated"}''\<rparr>
     \<and> (KeyStore.key updateTo \<notin> set (map public_keys.key (PublicKeys w)) \<longrightarrow>
          snd (PublicKeyUpdateHandler request env w) = w)
     \<and> (pathname request = ''/publicKey'' \<and> Request.method request = ''PATCH''
          \<and> ENVIRONMENT env = ''DEVELOPMENT'' \<longrightarrow>
          fetch p request env w = PublicKeyUpdateHandler request env w)\<close>
proof -
  have "map (\<lambda>r. if public_keys.key r = k then r\<lparr>trusted := t, key := k\<rparr> else r) rs = rs"
    if "k \<notin> set (map public_keys.key rs)" for k t and rs :: "public_keys list"
    using that by (induction rs) auto
  then have "update_set_where t k (\<lambda>r. public_keys.key r = k) w = w"
    if "k \<notin> set (map public_keys.key (PublicKeys w))" for k t
    using that by (simp add: update_set_where_def)
  then show ?thesis
    using assms
    by (simp add: PublicKeyUpdateHandler_def fetch_def NewJsonResponse_def KeyStore_json_def
        QuoteJSONString_def JSON_escape_Cons JSON_escape_Nil JSON_escape_char_def)
qed

theorem update_of_absent_key_reports_success_witness:
  \<open>''0N'' \<notin> set (map public_keys.key (PublicKeys demo_world))
   \<and> fetch demo_platform (update_request \<lparr>KeyStore.key = ''0N'', trusted = True\<rparr>) dev_env demo_world =
       (Inr \<lparr>status = 200, headers = [(''Content-Type'', ''application/json'')],
             body = ''{"newKey":{"key":"0N","trusted":true},"status":"success","message":"Key updated"}''\<rparr>,
        demo_world)\<close>
proof -
  have n: "''0N'' \<notin> set (map public_keys.key (PublicKeys demo_world))"
    by (simp add: demo_world_def)
  have j: "json_KeyStore (update_request \<lparr>KeyStore.key = ''0N'', trusted = True\<rparr>)
      = Some \<lparr>KeyStore.key = ''0N'', trusted = True\<rparr>"
    by (simp add: update_request_def)
  from update_of_absent_key_reports_success [OF j, where w = demo_world and env = dev_env and p = demo_platform] n
  show ?thesis
    by (simp add: prod_eq_iff update_request_def dev_env_def JSON_escape_Cons JSON_escape_Nil
        JSON_escape_char_def)
qed

end
